theory Spec2Isabelle
  imports Main
begin

section \<open>Values, errors and messages\<close>

text \<open>
  The values the client handles are Python values: the keyword arguments of a request
  model, the query parameters and JSON bodies of a request, and the decoded JSON of a
  response. A dictionary is an association list in insertion order, looked up with
  \<open>map_of\<close>; a (nested) instance of a request model is its fields in declaration order
  and the names of the fields the caller set. A member of a \<open>str\<close>-based \<open>Enum\<close> is the
  string of its value. Numbers are integers: no operation of the client computes with a
  float.
\<close>

datatype pyval =
    PNone
  | PBool bool
  | PInt int
  | PStr string
  | PList "pyval list"
  | PDict "(string \<times> pyval) list"
  | PModel "(string \<times> pyval) list" "string list"

text \<open>
  Every exception the code raises (or lets through) is a value. \<open>ValidationError\<close> is
  pydantic's, with one entry (field, message) per violated field; \<open>HTTPError\<close> is the
  one \<open>raise_for_status\<close> raises, with the status code and the body text of the
  response it carries; \<open>TypeError\<close> is the interpreter's, for a call whose arguments do
  not bind; \<open>JSONDecodeError\<close> is \<open>response.json()\<close> on a body that is not JSON;
  \<open>TransportError\<close> is a connection-level fault of the transport.
\<close>

datatype error =
    ValueError string
  | TypeError
  | ValidationError "(string \<times> string) list"
  | HTTPError int string
  | JSONDecodeError
  | TransportError

definition msg_department_name :: string where
  \<comment> \<open>UTF-8 bytes of the source's message: a department name cannot contain '/'\<close>
  "msg_department_name =
    [CHR 0xE9, CHR 0x83, CHR 0xA8, CHR 0xE7, CHR 0xBD, CHR 0xB2, CHR 0xE5, CHR 0x90,
     CHR 0x8D, CHR 0xE3, CHR 0x81, CHR 0xAB, CHR 0x27, CHR ''/'', CHR 0x27, CHR 0xE3,
     CHR 0x82, CHR 0x92, CHR 0xE5, CHR 0x90, CHR 0xAB, CHR 0xE3, CHR 0x82, CHR 0x81,
     CHR 0xE3, CHR 0x82, CHR 0x8B, CHR 0xE3, CHR 0x81, CHR 0x93, CHR 0xE3, CHR 0x81,
     CHR 0xA8, CHR 0xE3, CHR 0x81, CHR 0xAF, CHR 0xE3, CHR 0x81, CHR 0xA7, CHR 0xE3,
     CHR 0x81, CHR 0x8D, CHR 0xE3, CHR 0x81, CHR 0xBE, CHR 0xE3, CHR 0x81, CHR 0x9B,
     CHR 0xE3, CHR 0x82, CHR 0x93]"

definition msg_job_title_rank :: string where
  \<comment> \<open>UTF-8 bytes of the source's message: give the job title's rank in the range 1 to 99999\<close>
  "msg_job_title_rank =
    [CHR 0xE5, CHR 0xBD, CHR 0xB9, CHR 0xE8, CHR 0x81, CHR 0xB7, CHR 0xE3, CHR 0x81,
     CHR 0xAE, CHR 0xE3, CHR 0x83, CHR 0xA9, CHR 0xE3, CHR 0x83, CHR 0xB3, CHR 0xE3,
     CHR 0x82, CHR 0xAF, CHR 0xE3, CHR 0x81, CHR 0xAF, CHR ''1'', CHR 0xE3, CHR 0x80,
     CHR 0x9C, CHR ''9'', CHR ''9'', CHR ''9'', CHR ''9'', CHR ''9'', CHR 0xE3, CHR 0x81,
     CHR 0xAE, CHR 0xE7, CHR 0xAF, CHR 0x84, CHR 0xE5, CHR 0x9B, CHR 0xB2, CHR 0xE3,
     CHR 0x81, CHR 0xA7, CHR 0xE6, CHR 0x8C, CHR 0x87, CHR 0xE5, CHR 0xAE, CHR 0x9A,
     CHR 0xE3, CHR 0x81, CHR 0x97, CHR 0xE3, CHR 0x81, CHR 0xA6, CHR 0xE3, CHR 0x81,
     CHR 0x8F, CHR 0xE3, CHR 0x81, CHR 0xA0, CHR 0xE3, CHR 0x81, CHR 0x95, CHR 0xE3,
     CHR 0x81, CHR 0x84]"

definition msg_grade_rank :: string where
  \<comment> \<open>UTF-8 bytes of the source's message: give the grade's rank in the range 1 to 99999\<close>
  "msg_grade_rank =
    [CHR 0xE7, CHR 0xAD, CHR 0x89, CHR 0xE7, CHR 0xB4, CHR 0x9A, CHR 0xE3, CHR 0x81,
     CHR 0xAE, CHR 0xE3, CHR 0x83, CHR 0xA9, CHR 0xE3, CHR 0x83, CHR 0xB3, CHR 0xE3,
     CHR 0x82, CHR 0xAF, CHR 0xE3, CHR 0x81, CHR 0xAF, CHR ''1'', CHR 0xE3, CHR 0x80,
     CHR 0x9C, CHR ''9'', CHR ''9'', CHR ''9'', CHR ''9'', CHR ''9'', CHR 0xE3, CHR 0x81,
     CHR 0xAE, CHR 0xE7, CHR 0xAF, CHR 0x84, CHR 0xE5, CHR 0x9B, CHR 0xB2, CHR 0xE3,
     CHR 0x81, CHR 0xA7, CHR 0xE6, CHR 0x8C, CHR 0x87, CHR 0xE5, CHR 0xAE, CHR 0x9A,
     CHR 0xE3, CHR 0x81, CHR 0x97, CHR 0xE3, CHR 0x81, CHR 0xA6, CHR 0xE3, CHR 0x81,
     CHR 0x8F, CHR 0xE3, CHR 0x81, CHR 0xA0, CHR 0xE3, CHR 0x81, CHR 0x95, CHR 0xE3,
     CHR 0x81, CHR 0x84]"

definition msg_discontinued_past :: string where
  \<comment> \<open>UTF-8 bytes of the source's message: only a past date can be given as the discontinuation date\<close>
  "msg_discontinued_past =
    [CHR 0xE5, CHR 0xBB, CHR 0x83, CHR 0xE6, CHR 0xAD, CHR 0xA2, CHR 0xE6, CHR 0x97,
     CHR 0xA5, CHR 0xE3, CHR 0x81, CHR 0xAF, CHR 0xE9, CHR 0x81, CHR 0x8E, CHR 0xE5,
     CHR 0x8E, CHR 0xBB, CHR 0xE3, CHR 0x81, CHR 0xAE, CHR 0xE6, CHR 0x97, CHR 0xA5,
     CHR 0xE4, CHR 0xBB, CHR 0x98, CHR 0xE3, CHR 0x81, CHR 0xAE, CHR 0xE3, CHR 0x81,
     CHR 0xBF, CHR 0xE6, CHR 0x8C, CHR 0x87, CHR 0xE5, CHR 0xAE, CHR 0x9A, CHR 0xE3,
     CHR 0x81, CHR 0xA7, CHR 0xE3, CHR 0x81, CHR 0x8D, CHR 0xE3, CHR 0x81, CHR 0xBE,
     CHR 0xE3, CHR 0x81, CHR 0x99]"

definition msg_discontinued_format :: string where
  \<comment> \<open>UTF-8 bytes of the source's message: give the discontinuation date in the form YYYY-MM-DD\<close>
  "msg_discontinued_format =
    [CHR 0xE5, CHR 0xBB, CHR 0x83, CHR 0xE6, CHR 0xAD, CHR 0xA2, CHR 0xE6, CHR 0x97,
     CHR 0xA5, CHR 0xE3, CHR 0x81, CHR 0xAF, CHR '' '', CHR ''Y'', CHR ''Y'', CHR ''Y'',
     CHR ''Y'', CHR ''-'', CHR ''M'', CHR ''M'', CHR ''-'', CHR ''D'', CHR ''D'',
     CHR '' '', CHR 0xE5, CHR 0xBD, CHR 0xA2, CHR 0xE5, CHR 0xBC, CHR 0x8F, CHR 0xE3,
     CHR 0x81, CHR 0xA7, CHR 0xE6, CHR 0x8C, CHR 0x87, CHR 0xE5, CHR 0xAE, CHR 0x9A,
     CHR 0xE3, CHR 0x81, CHR 0x97, CHR 0xE3, CHR 0x81, CHR 0xA6, CHR 0xE3, CHR 0x81,
     CHR 0x8F, CHR 0xE3, CHR 0x81, CHR 0xA0, CHR 0xE3, CHR 0x81, CHR 0x95, CHR 0xE3,
     CHR 0x81, CHR 0x84]"

definition msg_gender :: string where
  \<comment> \<open>UTF-8 bytes of the source's message: give 'male' or 'female' as gender\<close>
  "msg_gender =
    [CHR 0xE6, CHR 0x80, CHR 0xA7, CHR 0xE5, CHR 0x88, CHR 0xA5, CHR 0xEF, CHR 0xBC,
     CHR 0x88, CHR ''g'', CHR ''e'', CHR ''n'', CHR ''d'', CHR ''e'', CHR ''r'', CHR 0xEF,
     CHR 0xBC, CHR 0x89, CHR 0xE3, CHR 0x81, CHR 0xAF, CHR '' '', CHR 0x27, CHR ''m'',
     CHR ''a'', CHR ''l'', CHR ''e'', CHR 0x27, CHR '' '', CHR 0xE3, CHR 0x81, CHR 0xBE,
     CHR 0xE3, CHR 0x81, CHR 0x9F, CHR 0xE3, CHR 0x81, CHR 0xAF, CHR '' '', CHR 0x27,
     CHR ''f'', CHR ''e'', CHR ''m'', CHR ''a'', CHR ''l'', CHR ''e'', CHR 0x27, CHR '' '',
     CHR 0xE3, CHR 0x82, CHR 0x92, CHR 0xE6, CHR 0x8C, CHR 0x87, CHR 0xE5, CHR 0xAE,
     CHR 0x9A, CHR 0xE3, CHR 0x81, CHR 0x97, CHR 0xE3, CHR 0x81, CHR 0xA6, CHR 0xE3,
     CHR 0x81, CHR 0x8F, CHR 0xE3, CHR 0x81, CHR 0xA0, CHR 0xE3, CHR 0x81, CHR 0x95,
     CHR 0xE3, CHR 0x81, CHR 0x84]"

definition msg_discontinue_not_past :: string where
  \<comment> \<open>UTF-8 bytes of the source's message: the discontinuation date cannot be today or a future date; give a date of yesterday or earlier\<close>
  "msg_discontinue_not_past =
    [CHR 0xE5, CHR 0xBB, CHR 0x83, CHR 0xE6, CHR 0xAD, CHR 0xA2, CHR 0xE6, CHR 0x97,
     CHR 0xA5, CHR 0xE3, CHR 0x81, CHR 0xAF, CHR 0xE6, CHR 0x9C, CHR 0xAC, CHR 0xE6,
     CHR 0x97, CHR 0xA5, CHR 0xE3, CHR 0x81, CHR 0xBE, CHR 0xE3, CHR 0x81, CHR 0x9F,
     CHR 0xE3, CHR 0x81, CHR 0xAF, CHR 0xE6, CHR 0x9C, CHR 0xAA, CHR 0xE6, CHR 0x9D,
     CHR 0xA5, CHR 0xE6, CHR 0x97, CHR 0xA5, CHR 0xE3, CHR 0x81, CHR 0xAB, CHR 0xE3,
     CHR 0x81, CHR 0xAF, CHR 0xE3, CHR 0x81, CHR 0xA7, CHR 0xE3, CHR 0x81, CHR 0x8D,
     CHR 0xE3, CHR 0x81, CHR 0xBE, CHR 0xE3, CHR 0x81, CHR 0x9B, CHR 0xE3, CHR 0x82,
     CHR 0x93, CHR 0xE3, CHR 0x80, CHR 0x82, CHR 0xE6, CHR 0x98, CHR 0xA8, CHR 0xE6,
     CHR 0x97, CHR 0xA5, CHR 0xE4, CHR 0xBB, CHR 0xA5, CHR 0xE5, CHR 0x89, CHR 0x8D,
     CHR 0xE3, CHR 0x81, CHR 0xAE, CHR 0xE6, CHR 0x97, CHR 0xA5, CHR 0xE4, CHR 0xBB,
     CHR 0x98, CHR 0xE3, CHR 0x82, CHR 0x92, CHR 0xE6, CHR 0x8C, CHR 0x87, CHR 0xE5,
     CHR 0xAE, CHR 0x9A, CHR 0xE3, CHR 0x81, CHR 0x97, CHR 0xE3, CHR 0x81, CHR 0xA6,
     CHR 0xE3, CHR 0x81, CHR 0x8F, CHR 0xE3, CHR 0x81, CHR 0xA0, CHR 0xE3, CHR 0x81,
     CHR 0x95, CHR 0xE3, CHR 0x81, CHR 0x84, CHR 0xE3, CHR 0x80, CHR 0x82]"

definition msg_dependent_patch_required :: string where
  \<comment> \<open>UTF-8 bytes of the source's message: a partial update of a dependent needs last name, first name, gender, birth date, relation id and live-together type\<close>
  "msg_dependent_patch_required =
    [CHR 0xE5, CHR 0xAE, CHR 0xB6, CHR 0xE6, CHR 0x97, CHR 0x8F, CHR 0xE6, CHR 0x83,
     CHR 0x85, CHR 0xE5, CHR 0xA0, CHR 0xB1, CHR 0xE3, CHR 0x81, CHR 0xAE, CHR 0xE9,
     CHR 0x83, CHR 0xA8, CHR 0xE5, CHR 0x88, CHR 0x86, CHR 0xE6, CHR 0x9B, CHR 0xB4,
     CHR 0xE6, CHR 0x96, CHR 0xB0, CHR 0xE3, CHR 0x81, CHR 0xAB, CHR 0xE3, CHR 0x81,
     CHR 0xAF, CHR 0xE3, CHR 0x80, CHR 0x81, CHR 0xE5, CHR 0xA7, CHR 0x93, CHR 0xE3,
     CHR 0x83, CHR 0xBB, CHR 0xE5, CHR 0x90, CHR 0x8D, CHR 0xE3, CHR 0x83, CHR 0xBB,
     CHR 0xE6, CHR 0x80, CHR 0xA7, CHR 0xE5, CHR 0x88, CHR 0xA5, CHR 0xE3, CHR 0x83,
     CHR 0xBB, CHR 0xE7, CHR 0x94, CHR 0x9F, CHR 0xE5, CHR 0xB9, CHR 0xB4, CHR 0xE6,
     CHR 0x9C, CHR 0x88, CHR 0xE6, CHR 0x97, CHR 0xA5, CHR 0xE3, CHR 0x83, CHR 0xBB,
     CHR 0xE7, CHR 0xB6, CHR 0x9A, CHR 0xE6, CHR 0x9F, CHR 0x84, CHR ''I'', CHR ''D'',
     CHR 0xE3, CHR 0x83, CHR 0xBB, CHR 0xE5, CHR 0x90, CHR 0x8C, CHR 0xE5, CHR 0xB1,
     CHR 0x85, CHR 0xE5, CHR 0x8C, CHR 0xBA, CHR 0xE5, CHR 0x88, CHR 0x86, CHR 0xE3,
     CHR 0x81, CHR 0x8C, CHR 0xE5, CHR 0xBF, CHR 0x85, CHR 0xE9, CHR 0xA0, CHR 0x88,
     CHR 0xE3, CHR 0x81, CHR 0xA7, CHR 0xE3, CHR 0x81, CHR 0x99, CHR 0xE3, CHR 0x80,
     CHR 0x82]"

definition msg_no_dependents :: string where
  \<comment> \<open>UTF-8 bytes of the source's message: no dependents are registered for this employee\<close>
  "msg_no_dependents =
    [CHR 0xE3, CHR 0x81, CHR 0x93, CHR 0xE3, CHR 0x81, CHR 0xAE, CHR 0xE5, CHR 0xBE,
     CHR 0x93, CHR 0xE6, CHR 0xA5, CHR 0xAD, CHR 0xE5, CHR 0x93, CHR 0xA1, CHR 0xE3,
     CHR 0x81, CHR 0xAB, CHR 0xE3, CHR 0x81, CHR 0xAF, CHR 0xE5, CHR 0xAE, CHR 0xB6,
     CHR 0xE6, CHR 0x97, CHR 0x8F, CHR 0xE6, CHR 0x83, CHR 0x85, CHR 0xE5, CHR 0xA0,
     CHR 0xB1, CHR 0xE3, CHR 0x81, CHR 0x8C, CHR 0xE7, CHR 0x99, CHR 0xBB, CHR 0xE9,
     CHR 0x8C, CHR 0xB2, CHR 0xE3, CHR 0x81, CHR 0x95, CHR 0xE3, CHR 0x82, CHR 0x8C,
     CHR 0xE3, CHR 0x81, CHR 0xA6, CHR 0xE3, CHR 0x81, CHR 0x84, CHR 0xE3, CHR 0x81,
     CHR 0xBE, CHR 0xE3, CHR 0x81, CHR 0x9B, CHR 0xE3, CHR 0x82, CHR 0x93, CHR 0xE3,
     CHR 0x80, CHR 0x82]"

text \<open>Python's truth value of an object, as \<open>if x:\<close> and \<open>all\<close> read it.\<close>

fun truthy :: "pyval \<Rightarrow> bool" where
  "truthy PNone = False"
| "truthy (PBool b) = b"
| "truthy (PInt n) = (n \<noteq> 0)"
| "truthy (PStr s) = (s \<noteq> [])"
| "truthy (PList vs) = (vs \<noteq> [])"
| "truthy (PDict kvs) = (kvs \<noteq> [])"
| "truthy (PModel fs st) = True"

text \<open>
  \<open>d[k] = v\<close> on a dictionary: the value is replaced where the key stands, a new key
  goes to the end. \<open>d.update(e)\<close> stores the entries of \<open>e\<close> one after the other.
\<close>

fun dict_set :: "string \<Rightarrow> pyval \<Rightarrow> (string \<times> pyval) list \<Rightarrow> (string \<times> pyval) list" where
  "dict_set k v [] = [(k, v)]"
| "dict_set k v ((k', v') # d) = (if k' = k then (k, v) # d else (k', v') # dict_set k v d)"

fun dict_update :: "(string \<times> pyval) list \<Rightarrow> (string \<times> pyval) list \<Rightarrow> (string \<times> pyval) list" where
  "dict_update d [] = d"
| "dict_update d ((k, v) # e) = dict_update (dict_set k v d) e"

section \<open>Dates and \<open>datetime.strptime(v, '%Y-%m-%d')\<close>\<close>

text \<open>
  A date is (year, month, day), compared as Python compares \<open>date\<close> objects.
\<close>

type_synonym date = "nat \<times> nat \<times> nat"

fun date_lt :: "date \<Rightarrow> date \<Rightarrow> bool" where
  "date_lt (y, m, d) (y', m', d') = (y < y' \<or> (y = y' \<and> (m < m' \<or> (m = m' \<and> d < d'))))"

definition date_le :: "date \<Rightarrow> date \<Rightarrow> bool" where
  "date_le a b = (date_lt a b \<or> a = b)"

definition is_leap :: "nat \<Rightarrow> bool" where
  "is_leap y = (y mod 4 = 0 \<and> (y mod 100 \<noteq> 0 \<or> y mod 400 = 0))"

definition days_in_month :: "nat \<Rightarrow> nat \<Rightarrow> nat" where
  "days_in_month y m =
     (if m = 2 then (if is_leap y then 29 else 28)
      else if m = 4 \<or> m = 6 \<or> m = 9 \<or> m = 11 then 30 else 31)"

text \<open>What the constructor of \<open>date\<close> accepts: years 1 to 9999, a day of the month.\<close>

definition valid_date :: "nat \<Rightarrow> nat \<Rightarrow> nat \<Rightarrow> bool" where
  "valid_date y m d =
     (1 \<le> y \<and> y \<le> 9999 \<and> 1 \<le> m \<and> m \<le> 12 \<and> 1 \<le> d \<and> d \<le> days_in_month y m)"

definition is_digit :: "char \<Rightarrow> bool" where
  "is_digit c = (48 \<le> (of_char c :: nat) \<and> (of_char c :: nat) \<le> 57)"

definition digit_val :: "char \<Rightarrow> nat" where
  "digit_val c = of_char c - 48"

text \<open>
  \<open>strptime\<close> turns the format into a regular expression and matches it at the start of
  the string: \<open>%Y\<close> is four digits, \<open>%m\<close> is \<open>1[0-2]|0[1-9]|[1-9]\<close>, \<open>%d\<close> is
  \<open>3[01]|[12]\d|0[1-9]|[1-9]| [1-9]\<close>. The functions below list the ways a directive
  matches, in the order the regular expression tries them, each with the rest of the
  string. Digits are the ASCII digits (a \<open>char\<close> is a byte): this is the library's
  parser on strings of ASCII characters. Its \<open>\d\<close> also matches the other decimal digits
  of Unicode, which these functions do not read.
\<close>

fun year_alts :: "string \<Rightarrow> (nat \<times> string) list" where
  "year_alts (a # b # c # d # rest) =
     (if is_digit a \<and> is_digit b \<and> is_digit c \<and> is_digit d
      then [(1000 * digit_val a + 100 * digit_val b + 10 * digit_val c + digit_val d, rest)]
      else [])"
| "year_alts s = []"

definition two_digits :: "(char \<Rightarrow> bool) \<Rightarrow> (char \<Rightarrow> bool) \<Rightarrow> string \<Rightarrow> (nat \<times> string) list" where
  "two_digits p q s =
     (case s of
        a # b # rest \<Rightarrow> (if p a \<and> q b then [(10 * digit_val a + digit_val b, rest)] else [])
      | _ \<Rightarrow> [])"

definition one_digit :: "string \<Rightarrow> (nat \<times> string) list" where
  "one_digit s =
     (case s of
        a # rest \<Rightarrow> (if is_digit a \<and> a \<noteq> CHR ''0'' then [(digit_val a, rest)] else [])
      | _ \<Rightarrow> [])"

definition month_alts :: "string \<Rightarrow> (nat \<times> string) list" where
  "month_alts s =
     two_digits (\<lambda>a. a = CHR ''1'') (\<lambda>b. b \<in> set ''012'') s
     @ two_digits (\<lambda>a. a = CHR ''0'') (\<lambda>b. is_digit b \<and> b \<noteq> CHR ''0'') s
     @ one_digit s"

definition day_alts :: "string \<Rightarrow> (nat \<times> string) list" where
  "day_alts s =
     two_digits (\<lambda>a. a = CHR ''3'') (\<lambda>b. b \<in> set ''01'') s
     @ two_digits (\<lambda>a. a \<in> set ''12'') is_digit s
     @ two_digits (\<lambda>a. a = CHR ''0'') (\<lambda>b. is_digit b \<and> b \<noteq> CHR ''0'') s
     @ one_digit s
     @ (case s of a # rest \<Rightarrow> (if a = CHR '' '' then one_digit rest else []) | _ \<Rightarrow> [])"

definition dash :: "string \<Rightarrow> string list" where
  "dash s = (case s of a # rest \<Rightarrow> (if a = CHR ''-'' then [rest] else []) | _ \<Rightarrow> [])"

text \<open>
  All matches of \<open>%Y-%m-%d\<close> at the start of the string, in backtracking order; the
  regular expression engine returns the first.
\<close>

definition ymd_matches :: "string \<Rightarrow> (date \<times> string) list" where
  "ymd_matches s =
     concat (map (\<lambda>(y, s1).
       concat (map (\<lambda>s2.
         concat (map (\<lambda>(m, s3).
           concat (map (\<lambda>s4.
             map (\<lambda>(d, s5). ((y, m, d), s5)) (day_alts s4))
           (dash s3)))
         (month_alts s2)))
       (dash s1)))
     (year_alts s))"

text \<open>
  \<open>datetime.strptime(v, '%Y-%m-%d').date()\<close>: a \<open>ValueError\<close> when the string does not
  match, when text is left after the match, or when the numbers are no date (the
  messages are the library's, without the values it quotes).
\<close>

definition strptime_ymd :: "string \<Rightarrow> error + date" where
  "strptime_ymd v =
     (case ymd_matches v of
        [] \<Rightarrow> Inl (ValueError ''time data does not match format'')
      | ((y, m, d), rest) # _ \<Rightarrow>
          if rest \<noteq> [] then Inl (ValueError ''unconverted data remains'')
          else if valid_date y m d then Inr (y, m, d)
          else Inl (ValueError ''day is out of range for month''))"

section \<open>Request models\<close>

subsection \<open>Construction of a model: what pydantic does with the keyword arguments\<close>

text \<open>
  A field of a model has a name, a type, a default when it is not required, and the
  class validators declared for it with \<open>@validator\<close>. The type of a field is the check
  pydantic makes on a supplied value; here a value must already have the declared type
  (pydantic's conversions, such as the string \<open>"5"\<close> for an \<open>int\<close>, are not part of
  the model), and a nested model is given as a dictionary.
\<close>

record field_spec =
  fname :: string
  ftype :: "pyval \<Rightarrow> string + pyval"
  required :: bool
  allow_none :: bool
  default_value :: pyval
  class_validators :: "(pyval \<Rightarrow> error + pyval) list"

datatype model = Model (fields: "(string \<times> pyval) list") (fields_set: "string list")

definition type_str :: "pyval \<Rightarrow> string + pyval" where
  "type_str v = (case v of PStr s \<Rightarrow> Inr v | _ \<Rightarrow> Inl ''str type expected'')"

definition type_int :: "pyval \<Rightarrow> string + pyval" where
  "type_int v = (case v of PInt n \<Rightarrow> Inr v | _ \<Rightarrow> Inl ''value is not a valid integer'')"

definition type_bool :: "pyval \<Rightarrow> string + pyval" where
  "type_bool v = (case v of PBool b \<Rightarrow> Inr v | _ \<Rightarrow> Inl ''value could not be parsed to a boolean'')"

definition type_enum :: "string list \<Rightarrow> pyval \<Rightarrow> string + pyval" where
  "type_enum members v =
     (case v of
        PStr s \<Rightarrow> (if s \<in> set members then Inr v
                   else Inl ''value is not a valid enumeration member'')
      | _ \<Rightarrow> Inl ''value is not a valid enumeration member'')"

text \<open>\<open>name: T\<close>, \<open>name: Optional[T] = None\<close> and \<open>name: Optional[T] = d\<close>.\<close>

definition required_field :: "(pyval \<Rightarrow> string + pyval) \<Rightarrow> string \<Rightarrow> field_spec" where
  "required_field t n =
     \<lparr>fname = n, ftype = t, required = True, allow_none = False, default_value = PNone,
      class_validators = []\<rparr>"

definition optional_default :: "(pyval \<Rightarrow> string + pyval) \<Rightarrow> string \<Rightarrow> pyval \<Rightarrow> field_spec" where
  "optional_default t n d =
     \<lparr>fname = n, ftype = t, required = False, allow_none = True, default_value = d,
      class_validators = []\<rparr>"

definition optional_field :: "(pyval \<Rightarrow> string + pyval) \<Rightarrow> string \<Rightarrow> field_spec" where
  "optional_field t n = optional_default t n PNone"

definition with_validator :: "field_spec \<Rightarrow> (pyval \<Rightarrow> error + pyval) \<Rightarrow> field_spec" where
  "with_validator f val = f\<lparr>class_validators := class_validators f @ [val]\<rparr>"

fun apply_validators :: "(pyval \<Rightarrow> error + pyval) list \<Rightarrow> pyval \<Rightarrow> error + pyval" where
  "apply_validators [] v = Inr v"
| "apply_validators (f # fs) v =
     (case f v of Inl e \<Rightarrow> Inl e | Inr v' \<Rightarrow> apply_validators fs v')"

text \<open>The message of the entry pydantic makes of an exception a validator raised.\<close>

fun error_message :: "error \<Rightarrow> string" where
  "error_message (ValueError m) = m"
| "error_message e = []"

text \<open>
  A supplied value: \<open>None\<close> is refused by a field that is not \<open>Optional\<close> and otherwise
  goes to the class validators as it is (they run on \<open>None\<close> too, which is why the
  validators of the partial-update models test \<open>v is not None\<close>); any other value is
  checked against the type first, then by the class validators in order.
\<close>

definition validate_field :: "field_spec \<Rightarrow> pyval \<Rightarrow> string + pyval" where
  "validate_field f v =
     (if v = PNone then
        (if allow_none f then
           (case apply_validators (class_validators f) PNone of
              Inl e \<Rightarrow> Inl (error_message e) | Inr v' \<Rightarrow> Inr v')
         else Inl ''none is not an allowed value'')
      else
        (case ftype f v of
           Inl m \<Rightarrow> Inl m
         | Inr v1 \<Rightarrow>
             (case apply_validators (class_validators f) v1 of
                Inl e \<Rightarrow> Inl (error_message e) | Inr v' \<Rightarrow> Inr v')))"

text \<open>
  All fields, in declaration order. A field the caller left out is an error when it is
  required, and otherwise takes its default without any validator being run; every
  violation is collected. The result is the errors, the field values and the names of
  the fields that were set.
\<close>

fun validate_model ::
  "field_spec list \<Rightarrow> (string \<times> pyval) list \<Rightarrow>
   (string \<times> string) list \<times> (string \<times> pyval) list \<times> string list" where
  "validate_model [] kw = ([], [], [])"
| "validate_model (f # fs) kw =
     (case validate_model fs kw of
        (errs, vals, st) \<Rightarrow>
          (case map_of kw (fname f) of
             None \<Rightarrow>
               (if required f then ((fname f, ''field required'') # errs, vals, st)
                else (errs, (fname f, default_value f) # vals, st))
           | Some v \<Rightarrow>
               (case validate_field f v of
                  Inl m \<Rightarrow> ((fname f, m) # errs, vals, st)
                | Inr v' \<Rightarrow> (errs, (fname f, v') # vals, fname f # st))))"

definition construct :: "field_spec list \<Rightarrow> (string \<times> pyval) list \<Rightarrow> error + model" where
  "construct fs kw =
     (case validate_model fs kw of
        (errs, vals, st) \<Rightarrow>
          (if errs = [] then Inr (Model vals st) else Inl (ValidationError errs)))"

text \<open>A field whose type is a nested model, given as a dictionary of its fields.\<close>

definition type_model :: "field_spec list \<Rightarrow> pyval \<Rightarrow> string + pyval" where
  "type_model fs v =
     (case v of
        PDict kw \<Rightarrow>
          (case construct fs kw of
             Inl e \<Rightarrow> Inl ''nested model is not valid''
           | Inr m \<Rightarrow> Inr (PModel (fields m) (fields_set m)))
      | _ \<Rightarrow> Inl ''value is not a valid dict'')"

text \<open>
  \<open>.dict(exclude_unset=eu, exclude_none=en)\<close>: the fields in declaration order, without
  those the caller did not set (when \<open>eu\<close>) and those that are \<open>None\<close> (when \<open>en\<close>),
  nested models, lists and dictionaries converted the same way.
\<close>

fun to_dict :: "bool \<Rightarrow> bool \<Rightarrow> pyval \<Rightarrow> pyval" where
  "to_dict eu en (PModel fs st) =
     PDict (map (\<lambda>kv. (fst kv, to_dict eu en (snd kv)))
       (filter (\<lambda>kv. (fst kv \<in> set st \<or> \<not> eu) \<and> (snd kv \<noteq> PNone \<or> \<not> en)) fs))"
| "to_dict eu en (PList vs) = PList (map (to_dict eu en) vs)"
| "to_dict eu en (PDict kvs) = PDict (map (\<lambda>kv. (fst kv, to_dict eu en (snd kv))) kvs)"
| "to_dict eu en v = v"

definition model_dict :: "bool \<Rightarrow> bool \<Rightarrow> model \<Rightarrow> pyval" where
  "model_dict eu en m = to_dict eu en (PModel (fields m) (fields_set m))"

text \<open>\<open>self.name\<close> on an instance of a model that declares the field.\<close>

definition attr :: "model \<Rightarrow> string \<Rightarrow> pyval" where
  "attr m n = (case map_of (fields m) n of Some v \<Rightarrow> v | None \<Rightarrow> PNone)"

text \<open>
  A class validator is written for the Python type of its field; these read it on the
  value pydantic passes, which has that type once the type check is through.
\<close>

definition str_validator :: "(string \<Rightarrow> error + string) \<Rightarrow> pyval \<Rightarrow> error + pyval" where
  "str_validator f v =
     (case v of
        PStr s \<Rightarrow> (case f s of Inl e \<Rightarrow> Inl e | Inr s' \<Rightarrow> Inr (PStr s'))
      | _ \<Rightarrow> Inl TypeError)"

definition int_validator :: "(int \<Rightarrow> error + int) \<Rightarrow> pyval \<Rightarrow> error + pyval" where
  "int_validator f v =
     (case v of
        PInt n \<Rightarrow> (case f n of Inl e \<Rightarrow> Inl e | Inr n' \<Rightarrow> Inr (PInt n'))
      | _ \<Rightarrow> Inl TypeError)"

definition opt_str_validator ::
  "(string option \<Rightarrow> error + string option) \<Rightarrow> pyval \<Rightarrow> error + pyval" where
  "opt_str_validator f v =
     (case (case v of PNone \<Rightarrow> Inr None | PStr s \<Rightarrow> Inr (Some s) | _ \<Rightarrow> Inl TypeError) of
        Inl e \<Rightarrow> Inl e
      | Inr a \<Rightarrow>
          (case f a of
             Inl e \<Rightarrow> Inl e | Inr None \<Rightarrow> Inr PNone | Inr (Some s') \<Rightarrow> Inr (PStr s')))"

definition opt_int_validator ::
  "(int option \<Rightarrow> error + int option) \<Rightarrow> pyval \<Rightarrow> error + pyval" where
  "opt_int_validator f v =
     (case (case v of PNone \<Rightarrow> Inr None | PInt n \<Rightarrow> Inr (Some n) | _ \<Rightarrow> Inl TypeError) of
        Inl e \<Rightarrow> Inl e
      | Inr a \<Rightarrow>
          (case f a of
             Inl e \<Rightarrow> Inl e | Inr None \<Rightarrow> Inr PNone | Inr (Some n') \<Rightarrow> Inr (PInt n')))"

subsection \<open>The validators of the source\<close>

definition DepartmentCreateRequest_validate_name :: "string \<Rightarrow> error + string" where
  "DepartmentCreateRequest_validate_name v =
     (if CHR ''/'' \<in> set v then Inl (ValueError msg_department_name) else Inr v)"

definition JobTitleCreateRequest_validate_rank :: "int \<Rightarrow> error + int" where
  "JobTitleCreateRequest_validate_rank v =
     (if v < 1 \<or> v > 99999 then Inl (ValueError msg_job_title_rank) else Inr v)"

definition JobTitleUpdateRequest_validate_rank :: "int \<Rightarrow> error + int" where
  "JobTitleUpdateRequest_validate_rank v =
     (if v < 1 \<or> v > 99999 then Inl (ValueError msg_job_title_rank) else Inr v)"

definition JobTitlePartialUpdateRequest_validate_rank :: "int option \<Rightarrow> error + int option" where
  "JobTitlePartialUpdateRequest_validate_rank v =
     (case v of
        None \<Rightarrow> Inr v
      | Some r \<Rightarrow> (if r < 1 \<or> r > 99999 then Inl (ValueError msg_job_title_rank) else Inr v))"

text \<open>
  The validator of the discontinue request reads the clock: \<open>now\<close> is
  \<open>datetime.now().date()\<close>. The \<open>ValueError\<close> for a date after \<open>now\<close> is raised inside
  the \<open>try\<close> and so is caught by its \<open>except ValueError\<close>, like the one of \<open>strptime\<close>.
\<close>

definition DepartmentDiscontinueRequest_validate_discontinued_date ::
  "date \<Rightarrow> string \<Rightarrow> error + string" where
  "DepartmentDiscontinueRequest_validate_discontinued_date now v =
     (case (case strptime_ymd v of
              Inl e \<Rightarrow> Inl e
            | Inr discontinued_date \<Rightarrow>
                (if date_lt now discontinued_date then Inl (ValueError msg_discontinued_past)
                 else Inr ())) of
        Inl (ValueError m) \<Rightarrow> Inl (ValueError msg_discontinued_format)
      | Inl e \<Rightarrow> Inl e
      | Inr u \<Rightarrow> Inr v)"

definition DepartmentPartialUpdateRequest_validate_name ::
  "string option \<Rightarrow> error + string option" where
  "DepartmentPartialUpdateRequest_validate_name v =
     (case v of
        None \<Rightarrow> Inr v
      | Some n \<Rightarrow> (if CHR ''/'' \<in> set n then Inl (ValueError msg_department_name) else Inr v))"

definition DepartmentUpdateRequest_validate_name :: "string \<Rightarrow> error + string" where
  "DepartmentUpdateRequest_validate_name v =
     (if CHR ''/'' \<in> set v then Inl (ValueError msg_department_name) else Inr v)"

definition GradeCreateRequest_validate_rank :: "int \<Rightarrow> error + int" where
  "GradeCreateRequest_validate_rank v =
     (if v < 1 \<or> v > 99999 then Inl (ValueError msg_grade_rank) else Inr v)"

definition GradeUpdateRequest_validate_rank :: "int \<Rightarrow> error + int" where
  "GradeUpdateRequest_validate_rank v =
     (if v < 1 \<or> v > 99999 then Inl (ValueError msg_grade_rank) else Inr v)"

definition GradePartialUpdateRequest_validate_rank :: "int option \<Rightarrow> error + int option" where
  "GradePartialUpdateRequest_validate_rank v =
     (case v of
        None \<Rightarrow> Inr v
      | Some r \<Rightarrow> (if r < 1 \<or> r > 99999 then Inl (ValueError msg_grade_rank) else Inr v))"

definition DependentCreateRequest_validate_gender :: "string \<Rightarrow> error + string" where
  "DependentCreateRequest_validate_gender v =
     (if v \<notin> set [''male'', ''female''] then Inl (ValueError msg_gender) else Inr v)"

subsection \<open>The models\<close>

text \<open>
  Each model is the list of its fields as the class body declares them, and its
  constructor, which takes the keyword arguments. \<open>Address\<close> and \<open>AttachmentParams\<close> are
  the first definitions of the file, the ones in force where the dependent models are
  declared. The model of the discontinue request takes the date its validator reads
  from the clock.
\<close>

definition LiveTogetherType_members :: "string list" where
  "LiveTogetherType_members = [''living_together'', ''living_separately'']"

definition Address_fields :: "field_spec list" where
  "Address_fields =
     [optional_field type_str ''country_number'',
      optional_field type_str ''zip_code'',
      optional_field type_str ''pref'',
      optional_field type_str ''city'',
      optional_field type_str ''street'',
      optional_field type_str ''building'',
      optional_field type_str ''literal_yomi'']"

definition AttachmentParams_fields :: "field_spec list" where
  "AttachmentParams_fields =
     [required_field type_str ''file_name'',
      required_field type_str ''content'']"

definition DepartmentCreateRequest_fields :: "field_spec list" where
  "DepartmentCreateRequest_fields =
     [with_validator (required_field type_str ''name'')
        (str_validator DepartmentCreateRequest_validate_name),
      optional_field type_int ''position'',
      optional_field type_str ''code'',
      optional_field type_str ''parent_id'']"

definition DepartmentCreateRequest :: "(string \<times> pyval) list \<Rightarrow> error + model" where
  "DepartmentCreateRequest kw = construct DepartmentCreateRequest_fields kw"

definition JobTitleCreateRequest_fields :: "field_spec list" where
  "JobTitleCreateRequest_fields =
     [required_field type_str ''name'',
      with_validator (required_field type_int ''rank'')
        (int_validator JobTitleCreateRequest_validate_rank),
      optional_field type_str ''code'']"

definition JobTitleCreateRequest :: "(string \<times> pyval) list \<Rightarrow> error + model" where
  "JobTitleCreateRequest kw = construct JobTitleCreateRequest_fields kw"

definition JobTitleUpdateRequest_fields :: "field_spec list" where
  "JobTitleUpdateRequest_fields =
     [required_field type_str ''name'',
      with_validator (required_field type_int ''rank'')
        (int_validator JobTitleUpdateRequest_validate_rank)]"

definition JobTitleUpdateRequest :: "(string \<times> pyval) list \<Rightarrow> error + model" where
  "JobTitleUpdateRequest kw = construct JobTitleUpdateRequest_fields kw"

definition JobTitlePartialUpdateRequest_fields :: "field_spec list" where
  "JobTitlePartialUpdateRequest_fields =
     [optional_field type_str ''name'',
      with_validator (optional_field type_int ''rank'')
        (opt_int_validator JobTitlePartialUpdateRequest_validate_rank),
      optional_field type_str ''code'']"

definition JobTitlePartialUpdateRequest :: "(string \<times> pyval) list \<Rightarrow> error + model" where
  "JobTitlePartialUpdateRequest kw = construct JobTitlePartialUpdateRequest_fields kw"

definition EmploymentTypeCreateRequest_fields :: "field_spec list" where
  "EmploymentTypeCreateRequest_fields =
     [required_field type_str ''name'',
      optional_field type_str ''code'']"

definition EmploymentTypeCreateRequest :: "(string \<times> pyval) list \<Rightarrow> error + model" where
  "EmploymentTypeCreateRequest kw = construct EmploymentTypeCreateRequest_fields kw"

definition EmploymentTypeUpdateRequest_fields :: "field_spec list" where
  "EmploymentTypeUpdateRequest_fields =
     [required_field type_str ''name'']"

definition EmploymentTypeUpdateRequest :: "(string \<times> pyval) list \<Rightarrow> error + model" where
  "EmploymentTypeUpdateRequest kw = construct EmploymentTypeUpdateRequest_fields kw"

definition EmploymentTypePartialUpdateRequest_fields :: "field_spec list" where
  "EmploymentTypePartialUpdateRequest_fields =
     [optional_field type_str ''name'',
      optional_field type_str ''code'']"

definition EmploymentTypePartialUpdateRequest :: "(string \<times> pyval) list \<Rightarrow> error + model" where
  "EmploymentTypePartialUpdateRequest kw = construct EmploymentTypePartialUpdateRequest_fields kw"

definition DepartmentDiscontinueRequest_fields :: "date \<Rightarrow> field_spec list" where
  "DepartmentDiscontinueRequest_fields now =
     [with_validator (required_field type_str ''discontinued_date'')
        (str_validator (DepartmentDiscontinueRequest_validate_discontinued_date now))]"

definition DepartmentDiscontinueRequest :: "date \<Rightarrow> (string \<times> pyval) list \<Rightarrow> error + model" where
  "DepartmentDiscontinueRequest now kw = construct (DepartmentDiscontinueRequest_fields now) kw"

definition DepartmentPartialUpdateRequest_fields :: "field_spec list" where
  "DepartmentPartialUpdateRequest_fields =
     [with_validator (optional_field type_str ''name'')
        (opt_str_validator DepartmentPartialUpdateRequest_validate_name),
      optional_field type_int ''position'',
      optional_field type_str ''code'',
      optional_field type_str ''parent_id'']"

definition DepartmentPartialUpdateRequest :: "(string \<times> pyval) list \<Rightarrow> error + model" where
  "DepartmentPartialUpdateRequest kw = construct DepartmentPartialUpdateRequest_fields kw"

definition DepartmentUpdateRequest_fields :: "field_spec list" where
  "DepartmentUpdateRequest_fields =
     [with_validator (required_field type_str ''name'')
        (str_validator DepartmentUpdateRequest_validate_name),
      optional_field type_int ''position'',
      optional_field type_str ''code'',
      optional_field type_str ''parent_id'']"

definition DepartmentUpdateRequest :: "(string \<times> pyval) list \<Rightarrow> error + model" where
  "DepartmentUpdateRequest kw = construct DepartmentUpdateRequest_fields kw"

definition GradeCreateRequest_fields :: "field_spec list" where
  "GradeCreateRequest_fields =
     [required_field type_str ''name'',
      with_validator (required_field type_int ''rank'')
        (int_validator GradeCreateRequest_validate_rank)]"

definition GradeCreateRequest :: "(string \<times> pyval) list \<Rightarrow> error + model" where
  "GradeCreateRequest kw = construct GradeCreateRequest_fields kw"

definition GradeUpdateRequest_fields :: "field_spec list" where
  "GradeUpdateRequest_fields =
     [required_field type_str ''name'',
      with_validator (required_field type_int ''rank'')
        (int_validator GradeUpdateRequest_validate_rank)]"

definition GradeUpdateRequest :: "(string \<times> pyval) list \<Rightarrow> error + model" where
  "GradeUpdateRequest kw = construct GradeUpdateRequest_fields kw"

definition GradePartialUpdateRequest_fields :: "field_spec list" where
  "GradePartialUpdateRequest_fields =
     [optional_field type_str ''name'',
      with_validator (optional_field type_int ''rank'')
        (opt_int_validator GradePartialUpdateRequest_validate_rank)]"

definition GradePartialUpdateRequest :: "(string \<times> pyval) list \<Rightarrow> error + model" where
  "GradePartialUpdateRequest kw = construct GradePartialUpdateRequest_fields kw"

definition JobCategoryCreateRequest_fields :: "field_spec list" where
  "JobCategoryCreateRequest_fields =
     [required_field type_str ''name'']"

definition JobCategoryCreateRequest :: "(string \<times> pyval) list \<Rightarrow> error + model" where
  "JobCategoryCreateRequest kw = construct JobCategoryCreateRequest_fields kw"

definition JobCategoryUpdateRequest_fields :: "field_spec list" where
  "JobCategoryUpdateRequest_fields =
     [required_field type_str ''name'']"

definition JobCategoryUpdateRequest :: "(string \<times> pyval) list \<Rightarrow> error + model" where
  "JobCategoryUpdateRequest kw = construct JobCategoryUpdateRequest_fields kw"

definition JobCategoryPartialUpdateRequest_fields :: "field_spec list" where
  "JobCategoryPartialUpdateRequest_fields =
     [optional_field type_str ''name'']"

definition JobCategoryPartialUpdateRequest :: "(string \<times> pyval) list \<Rightarrow> error + model" where
  "JobCategoryPartialUpdateRequest kw = construct JobCategoryPartialUpdateRequest_fields kw"

definition DependentCreateRequest_fields :: "field_spec list" where
  "DependentCreateRequest_fields =
     [required_field type_str ''relation_id'',
      optional_field type_bool ''is_spouse'',
      required_field type_str ''last_name'',
      required_field type_str ''first_name'',
      optional_field type_str ''last_name_yomi'',
      optional_field type_str ''first_name_yomi'',
      required_field type_str ''birth_at'',
      optional_field type_str ''moved_at'',
      with_validator (required_field type_str ''gender'')
        (str_validator DependentCreateRequest_validate_gender),
      optional_field type_str ''job'',
      optional_field type_str ''basic_pension_number'',
      optional_field (type_model AttachmentParams_fields) ''basic_pension_number_image'',
      required_field (type_enum LiveTogetherType_members) ''live_together_type'',
      optional_field (type_model Address_fields) ''address'',
      optional_field type_str ''tel_number'',
      optional_field type_str ''handicapped_type'',
      optional_field type_str ''handicapped_note_type'',
      optional_field type_str ''handicapped_note_delivery_at'',
      optional_field (type_model AttachmentParams_fields) ''handicapped_image'',
      optional_field type_bool ''remittance_to_relative'',
      optional_field (type_model AttachmentParams_fields) ''remittance_image1'',
      optional_field (type_model AttachmentParams_fields) ''remittance_image2'',
      optional_field (type_model AttachmentParams_fields) ''remittance_image3'',
      optional_field type_bool ''international_student'',
      optional_field (type_model AttachmentParams_fields) ''international_student_image'',
      optional_default type_str ''social_insurance_support_type'' (PStr ''supported''),
      optional_field type_int ''income'',
      optional_field type_int ''monthly_income'',
      optional_field type_str ''soc_ins_qualified_at'',
      optional_field type_str ''soc_ins_qualified_reason'',
      optional_field type_str ''soc_ins_disqualified_at'',
      optional_field type_str ''disqualified_reason_type'',
      optional_field type_str ''disqualified_reason'',
      optional_default type_str ''tax_law_support_type'' (PStr ''supported''),
      optional_field type_int ''tax_deduction_income'',
      optional_field type_str ''tax_deduction_qualified_at'',
      optional_field type_str ''tax_deduction_qualified_reason'',
      optional_field type_str ''tax_deduction_disqualified_at'',
      optional_field type_str ''tax_deduction_disqualified_reason_type'',
      optional_field type_str ''tax_deduction_disqualified_reason'',
      optional_field (type_model AttachmentParams_fields) ''maternity_handbook_image'',
      optional_field (type_model AttachmentParams_fields) ''kinship_image'',
      optional_field type_str ''code'']"

definition DependentCreateRequest :: "(string \<times> pyval) list \<Rightarrow> error + model" where
  "DependentCreateRequest kw = construct DependentCreateRequest_fields kw"

definition DependentPartialUpdateRequest_fields :: "field_spec list" where
  "DependentPartialUpdateRequest_fields =
     [required_field type_str ''relation_id'',
      optional_field type_bool ''is_spouse'',
      required_field type_str ''last_name'',
      required_field type_str ''first_name'',
      optional_field type_str ''last_name_yomi'',
      optional_field type_str ''first_name_yomi'',
      required_field type_str ''birth_at'',
      optional_field type_str ''moved_at'',
      required_field type_str ''gender'',
      optional_field type_str ''job'',
      optional_field type_str ''basic_pension_number'',
      optional_field (type_model AttachmentParams_fields) ''basic_pension_number_image'',
      required_field (type_enum LiveTogetherType_members) ''live_together_type'',
      optional_field (type_model Address_fields) ''address'',
      optional_field type_str ''tel_number'',
      optional_field type_str ''handicapped_type'',
      optional_field type_str ''handicapped_note_type'',
      optional_field type_str ''handicapped_note_delivery_at'',
      optional_field (type_model AttachmentParams_fields) ''handicapped_image'',
      optional_field type_bool ''remittance_to_relative'',
      optional_field (type_model AttachmentParams_fields) ''remittance_image1'',
      optional_field (type_model AttachmentParams_fields) ''remittance_image2'',
      optional_field (type_model AttachmentParams_fields) ''remittance_image3'',
      optional_field type_bool ''international_student'',
      optional_field (type_model AttachmentParams_fields) ''international_student_image'',
      optional_field type_str ''social_insurance_support_type'',
      optional_field type_int ''income'',
      optional_field type_int ''monthly_income'',
      optional_field type_str ''soc_ins_qualified_at'',
      optional_field type_str ''soc_ins_qualified_reason'',
      optional_field type_str ''soc_ins_disqualified_at'',
      optional_field type_str ''disqualified_reason_type'',
      optional_field type_str ''disqualified_reason'',
      optional_field type_str ''tax_law_support_type'',
      optional_field type_int ''tax_deduction_income'',
      optional_field type_str ''tax_deduction_qualified_at'',
      optional_field type_str ''tax_deduction_qualified_reason'',
      optional_field type_str ''tax_deduction_disqualified_at'',
      optional_field type_str ''tax_deduction_disqualified_reason_type'',
      optional_field type_str ''tax_deduction_disqualified_reason'',
      optional_field (type_model AttachmentParams_fields) ''maternity_handbook_image'',
      optional_field (type_model AttachmentParams_fields) ''kinship_image'',
      optional_field type_str ''code'']"

definition DependentPartialUpdateRequest :: "(string \<times> pyval) list \<Rightarrow> error + model" where
  "DependentPartialUpdateRequest kw = construct DependentPartialUpdateRequest_fields kw"

text \<open>\<open>class DependentUpdateRequest(DependentCreateRequest): pass\<close>\<close>

definition DependentUpdateRequest_fields :: "field_spec list" where
  "DependentUpdateRequest_fields = DependentCreateRequest_fields"

definition DependentUpdateRequest :: "(string \<times> pyval) list \<Rightarrow> error + model" where
  "DependentUpdateRequest kw = construct DependentUpdateRequest_fields kw"

definition has_required_patch_fields :: "model \<Rightarrow> bool" where
  "has_required_patch_fields self =
     list_all truthy
       [attr self ''last_name'', attr self ''first_name'', attr self ''birth_at'',
        attr self ''gender'', attr self ''live_together_type'', attr self ''relation_id'']"

section \<open>The client\<close>

subsection \<open>Requests, responses and the transport\<close>

text \<open>
  A call of the \<open>requests\<close> library is a request handed to the transport, which
  answers with a response or with a connection-level fault. The transport is a
  parameter: its answer may depend on the request and on the requests issued before
  it. Every call is appended to a log, so that the requests an operation issues can be
  counted. Of a response the client reads the status code, the text and the decoded
  JSON (\<open>None\<close> when the body is not JSON).
\<close>

datatype http_method = GET | POST | PUT | PATCH | DELETE

record request =
  req_method :: http_method
  req_url :: string
  req_params :: "(string \<times> pyval) list option"
  req_json :: "pyval option"
  req_headers :: "(string \<times> string) list"

record response =
  status_code :: int
  body_text :: string
  json_body :: "pyval option"

datatype reply = Response response | ConnectionFault

type_synonym transport = "request list \<Rightarrow> request \<Rightarrow> reply"

type_synonym result = "(error + pyval) \<times> request list"

record SmartHRClient =
  base_url :: string
  api_key :: string
  headers :: "(string \<times> string) list"

text \<open>\<open>SmartHRClient.__init__\<close>, with the environment as a map.\<close>

definition SmartHRClient_init :: "(string \<rightharpoonup> string) \<Rightarrow> error + SmartHRClient" where
  "SmartHRClient_init env =
     (let base = (case env ''SMARTHR_API_BASE_URL'' of
                    Some u \<Rightarrow> u | None \<Rightarrow> ''https://app.smarthr.jp/api'')
      in case env ''SMARTHR_API_KEY'' of
           None \<Rightarrow> Inl (ValueError ''SMARTHR_API_KEY environment variable is not set'')
         | Some k \<Rightarrow>
             (if k = [] then
                Inl (ValueError ''SMARTHR_API_KEY environment variable is not set'')
              else
                Inr \<lparr>base_url = base, api_key = k,
                     headers = [(''Authorization'', ''Bearer '' @ k),
                                (''Content-Type'', ''application/json'')]\<rparr>))"

definition requests_request ::
  "transport \<Rightarrow> request \<Rightarrow> request list \<Rightarrow> (error + response) \<times> request list" where
  "requests_request tr r log =
     (case tr log r of ConnectionFault \<Rightarrow> Inl TransportError | Response resp \<Rightarrow> Inr resp,
      log @ [r])"

text \<open>\<open>response.raise_for_status()\<close> raises for the statuses 400 to 599.\<close>

definition raise_for_status :: "response \<Rightarrow> error option" where
  "raise_for_status response =
     (if 400 \<le> status_code response \<and> status_code response < 600
      then Some (HTTPError (status_code response) (body_text response)) else None)"

definition response_json :: "response \<Rightarrow> error + pyval" where
  "response_json response =
     (case json_body response of None \<Rightarrow> Inl JSONDecodeError | Some j \<Rightarrow> Inr j)"

text \<open>The statements after a call of \<open>requests\<close>: they run when the call returned.\<close>

definition on_response ::
  "(error + response) \<times> request list \<Rightarrow> (response \<Rightarrow> error + pyval) \<Rightarrow> result" where
  "on_response r k =
     (case r of (Inl e, log) \<Rightarrow> (Inl e, log) | (Inr response, log) \<Rightarrow> (k response, log))"

text \<open>
  An argument with a default (\<open>None\<close> stands for an argument the caller left out), an
  optional string as a Python value, and the statement \<open>if x: params[k] = x\<close>.
\<close>

definition default_arg :: "'a \<Rightarrow> 'a option \<Rightarrow> 'a" where
  "default_arg d x = (case x of None \<Rightarrow> d | Some v \<Rightarrow> v)"

definition opt_str :: "string option \<Rightarrow> pyval" where
  "opt_str x = (case x of None \<Rightarrow> PNone | Some s \<Rightarrow> PStr s)"

definition set_if :: "string \<Rightarrow> pyval \<Rightarrow> (string \<times> pyval) list \<Rightarrow> (string \<times> pyval) list" where
  "set_if k v params = (if truthy v then dict_set k v params else params)"

subsection \<open>Binding the arguments of a call\<close>

text \<open>
  \<open>list_crews\<close> and \<open>list_dependents\<close> end their parameter lists with \<open>**kwargs\<close>, so
  what reaches \<open>kwargs\<close> is decided by how Python binds a call. A signature lists the
  declared parameters with their defaults. Positional arguments fill the parameters in
  order (one too many is a \<open>TypeError\<close>); a keyword argument named like a parameter
  binds it, and is a \<open>TypeError\<close> when that parameter already has a value; a keyword
  argument of any other name goes to \<open>kwargs\<close>. \<open>taken\<close> holds the names that have a
  value; it starts with the parameters bound before the signature's (\<open>self\<close>).
\<close>

type_synonym signature = "(string \<times> pyval) list"

fun bind_positional :: "signature \<Rightarrow> pyval list \<Rightarrow> error + (string \<times> pyval) list" where
  "bind_positional sg [] = Inr []"
| "bind_positional [] (v # vs) = Inl TypeError"
| "bind_positional ((n, d) # sg) (v # vs) =
     (case bind_positional sg vs of Inl e \<Rightarrow> Inl e | Inr b \<Rightarrow> Inr ((n, v) # b))"

fun bind_keywords ::
  "string list \<Rightarrow> string list \<Rightarrow> (string \<times> pyval) list \<Rightarrow>
   error + (string \<times> pyval) list \<times> (string \<times> pyval) list" where
  "bind_keywords declared taken [] = Inr ([], [])"
| "bind_keywords declared taken ((k, v) # kw) =
     (if k \<in> set taken then Inl TypeError
      else
        (case bind_keywords declared (k # taken) kw of
           Inl e \<Rightarrow> Inl e
         | Inr (bound, kwargs) \<Rightarrow>
             (if k \<in> set declared then Inr ((k, v) # bound, kwargs)
              else Inr (bound, (k, v) # kwargs))))"

text \<open>The local variables of the call: every declared parameter, bound or defaulted.\<close>

definition with_defaults :: "signature \<Rightarrow> (string \<times> pyval) list \<Rightarrow> (string \<times> pyval) list" where
  "with_defaults sg bound =
     map (\<lambda>(n, d). (n, (case map_of bound n of Some v \<Rightarrow> v | None \<Rightarrow> d))) sg"

definition bind_call ::
  "string list \<Rightarrow> signature \<Rightarrow> pyval list \<Rightarrow> (string \<times> pyval) list \<Rightarrow>
   error + (string \<times> pyval) list \<times> (string \<times> pyval) list" where
  "bind_call receiver sg pos kw =
     (case bind_positional sg pos of
        Inl e \<Rightarrow> Inl e
      | Inr b \<Rightarrow>
          (case bind_keywords (map fst sg) (receiver @ map fst b) kw of
             Inl e \<Rightarrow> Inl e
           | Inr (bound, kwargs) \<Rightarrow> Inr (with_defaults sg (b @ bound), kwargs)))"

definition arg :: "(string \<times> pyval) list \<Rightarrow> string \<Rightarrow> pyval" where
  "arg args n = (case map_of args n of Some v \<Rightarrow> v | None \<Rightarrow> PNone)"

subsection \<open>The operations\<close>

text \<open>
  Each operation takes the client, its arguments, the transport and the log of the
  requests issued so far, and returns its result (the value it returns or the
  exception it raises) with the log. A model argument is an instance of the class the
  signature names. The \<open>print\<close> of an exception handler that re-raises is not part of
  the model.

  \<open>_request\<close> is the internal method the job category and dependent operations go
  through.
\<close>

definition SmartHRClient_request ::
  "SmartHRClient \<Rightarrow> http_method \<Rightarrow> string \<Rightarrow> (string \<times> pyval) list option \<Rightarrow> pyval option \<Rightarrow>
   transport \<Rightarrow> request list \<Rightarrow> result" where
  "SmartHRClient_request self meth endpoint params js tr log =
     on_response
       (requests_request tr
          \<lparr>req_method = meth, req_url = base_url self @ endpoint,
            req_params = params, req_json = js,
            req_headers = headers self\<rparr> log)
       (\<lambda>response.
          if status_code response = 204
          then Inr (PDict [(''status'', PInt 204), (''message'', PStr ''No Content'')])
          else case raise_for_status response of
                 Some e \<Rightarrow> Inl e | None \<Rightarrow> response_json response)"

definition create_crew ::
  "SmartHRClient \<Rightarrow> model \<Rightarrow> transport \<Rightarrow> request list \<Rightarrow> result" where
  "create_crew self crew_data tr log =
     on_response
       (requests_request tr
          \<lparr>req_method = POST, req_url = base_url self @ ''/v1/crews'',
            req_params = None, req_json = Some (model_dict True True crew_data),
            req_headers = headers self\<rparr> log)
       (\<lambda>response.
          case raise_for_status response of Some e \<Rightarrow> Inl e | None \<Rightarrow> response_json response)"

definition get_crew ::
  "SmartHRClient \<Rightarrow> string \<Rightarrow> string option \<Rightarrow> transport \<Rightarrow> request list \<Rightarrow> result" where
  "get_crew self crew_id flds tr log =
     on_response
       (requests_request tr
          \<lparr>req_method = GET, req_url = base_url self @ ''/v1/crews/'' @ crew_id,
            req_params = Some (set_if ''fields'' (opt_str flds) []), req_json = None,
            req_headers = headers self\<rparr> log)
       (\<lambda>response.
          case raise_for_status response of Some e \<Rightarrow> Inl e | None \<Rightarrow> response_json response)"

definition update_crew ::
  "SmartHRClient \<Rightarrow> string \<Rightarrow> model \<Rightarrow> transport \<Rightarrow> request list \<Rightarrow> result" where
  "update_crew self crew_id crew_data tr log =
     on_response
       (requests_request tr
          \<lparr>req_method = PATCH, req_url = base_url self @ ''/v1/crews/'' @ crew_id,
            req_params = None, req_json = Some (model_dict True True crew_data),
            req_headers = headers self\<rparr> log)
       (\<lambda>response.
          case raise_for_status response of Some e \<Rightarrow> Inl e | None \<Rightarrow> response_json response)"

text \<open>
  \<open>list_crews(self, page=1, per_page=10, emp_code=None, ..., department_id=None,
  **kwargs)\<close>, called with positional and keyword arguments.
\<close>

definition list_crews_signature :: signature where
  "list_crews_signature =
     [(''page'', PInt 1), (''per_page'', PInt 10), (''emp_code'', PNone), (''emp_type'', PNone),
      (''employment_type_id'', PNone), (''emp_status'', PNone), (''gender'', PNone),
      (''entered_at_from'', PNone), (''entered_at_to'', PNone), (''resigned_at_from'', PNone),
      (''resigned_at_to'', PNone), (''department_id'', PNone)]"

definition list_crews_params ::
  "(string \<times> pyval) list \<Rightarrow> (string \<times> pyval) list \<Rightarrow> (string \<times> pyval) list" where
  "list_crews_params args kwargs =
     dict_update
       (fold (\<lambda>n. set_if n (arg args n))
          [''emp_code'', ''emp_type'', ''employment_type_id'', ''emp_status'', ''gender'',
           ''entered_at_from'', ''entered_at_to'', ''resigned_at_from'', ''resigned_at_to'',
           ''department_id'']
          [(''page'', arg args ''page''), (''per_page'', arg args ''per_page'')])
       kwargs"

definition list_crews ::
  "SmartHRClient \<Rightarrow> pyval list \<Rightarrow> (string \<times> pyval) list \<Rightarrow> transport \<Rightarrow> request list \<Rightarrow> result" where
  "list_crews self pos kw tr log =
     (case bind_call [''self''] list_crews_signature pos kw of
        Inl e \<Rightarrow> (Inl e, log)
      | Inr (args, kwargs) \<Rightarrow>
          on_response
            (requests_request tr
               \<lparr>req_method = GET, req_url = base_url self @ ''/v1/crews'',
                 req_params = Some (list_crews_params args kwargs), req_json = None,
                 req_headers = headers self\<rparr> log)
            (\<lambda>response.
               case raise_for_status response of
                 Some e \<Rightarrow> Inl e | None \<Rightarrow> response_json response))"

definition search_crews_params ::
  "string \<Rightarrow> int option \<Rightarrow> int option \<Rightarrow> bool option \<Rightarrow> (string \<times> pyval) list" where
  "search_crews_params query page per_page prefer_business_name =
     (case prefer_business_name of
        None \<Rightarrow> (\<lambda>params. params)
      | Some b \<Rightarrow> dict_set ''prefer_business_name'' (PBool b))
       [(''q'', PStr query), (''page'', PInt (default_arg 1 page)),
        (''per_page'', PInt (default_arg 10 per_page))]"

definition search_crews ::
  "SmartHRClient \<Rightarrow> string \<Rightarrow> int option \<Rightarrow> int option \<Rightarrow> bool option \<Rightarrow>
   transport \<Rightarrow> request list \<Rightarrow> result" where
  "search_crews self query page per_page prefer_business_name tr log =
     on_response
       (requests_request tr
          \<lparr>req_method = GET, req_url = base_url self @ ''/v1/crews'',
            req_params = Some (search_crews_params query page per_page prefer_business_name),
            req_json = None, req_headers = headers self\<rparr> log)
       (\<lambda>response.
          case raise_for_status response of Some e \<Rightarrow> Inl e | None \<Rightarrow> response_json response)"

definition invite_crew ::
  "SmartHRClient \<Rightarrow> string \<Rightarrow> string option \<Rightarrow> string option \<Rightarrow>
   transport \<Rightarrow> request list \<Rightarrow> result" where
  "invite_crew self crew_id inviter_user_id crew_input_form_id tr log =
     on_response
       (requests_request tr
          \<lparr>req_method = PUT, req_url = base_url self @ ''/v1/crews/'' @ crew_id @ ''/invite'',
            req_params = None,
            req_json = Some (PDict
              (set_if ''crew_input_form_id'' (opt_str crew_input_form_id)
                (set_if ''inviter_user_id'' (opt_str inviter_user_id) []))),
            req_headers = headers self\<rparr> log)
       (\<lambda>response.
          case raise_for_status response of Some e \<Rightarrow> Inl e | None \<Rightarrow> response_json response)"

definition delete_crew ::
  "SmartHRClient \<Rightarrow> string \<Rightarrow> transport \<Rightarrow> request list \<Rightarrow> result" where
  "delete_crew self crew_id tr log =
     on_response
       (requests_request tr
          \<lparr>req_method = DELETE, req_url = base_url self @ ''/v1/crews/'' @ crew_id,
            req_params = None, req_json = None,
            req_headers = headers self\<rparr> log)
       (\<lambda>response.
          case raise_for_status response of Some e \<Rightarrow> Inl e | None \<Rightarrow> Inr PNone)"

definition partial_update_department ::
  "SmartHRClient \<Rightarrow> string \<Rightarrow> model \<Rightarrow> transport \<Rightarrow> request list \<Rightarrow> result" where
  "partial_update_department self department_id department_data tr log =
     on_response
       (requests_request tr
          \<lparr>req_method = PATCH, req_url = base_url self @ ''/v1/departments/'' @ department_id,
            req_params = None, req_json = Some (model_dict True True department_data),
            req_headers = headers self\<rparr> log)
       (\<lambda>response.
          case raise_for_status response of Some e \<Rightarrow> Inl e | None \<Rightarrow> response_json response)"

definition update_department ::
  "SmartHRClient \<Rightarrow> string \<Rightarrow> model \<Rightarrow> transport \<Rightarrow> request list \<Rightarrow> result" where
  "update_department self department_id department_data tr log =
     on_response
       (requests_request tr
          \<lparr>req_method = PUT, req_url = base_url self @ ''/v1/departments/'' @ department_id,
            req_params = None, req_json = Some (model_dict False False department_data),
            req_headers = headers self\<rparr> log)
       (\<lambda>response.
          case raise_for_status response of Some e \<Rightarrow> Inl e | None \<Rightarrow> response_json response)"

definition get_department ::
  "SmartHRClient \<Rightarrow> string \<Rightarrow> transport \<Rightarrow> request list \<Rightarrow> result" where
  "get_department self department_id tr log =
     on_response
       (requests_request tr
          \<lparr>req_method = GET, req_url = base_url self @ ''/v1/departments/'' @ department_id,
            req_params = None, req_json = None,
            req_headers = headers self\<rparr> log)
       (\<lambda>response.
          case raise_for_status response of Some e \<Rightarrow> Inl e | None \<Rightarrow> response_json response)"

definition list_departments_params ::
  "int option \<Rightarrow> int option \<Rightarrow> string option \<Rightarrow> string option \<Rightarrow> (string \<times> pyval) list" where
  "list_departments_params page per_page code sort_order =
     set_if ''sort'' (opt_str sort_order)
       (set_if ''code'' (opt_str code)
       ([(''page'', PInt (default_arg 1 page)), (''per_page'', PInt (default_arg 10 per_page))]))"

definition list_departments ::
  "SmartHRClient \<Rightarrow> int option \<Rightarrow> int option \<Rightarrow> string option \<Rightarrow> string option \<Rightarrow> transport \<Rightarrow> request list \<Rightarrow> result" where
  "list_departments self page per_page code sort_order tr log =
     on_response
       (requests_request tr
          \<lparr>req_method = GET, req_url = base_url self @ ''/v1/departments'',
            req_params = Some (list_departments_params page per_page code sort_order), req_json = None,
            req_headers = headers self\<rparr> log)
       (\<lambda>response.
          case raise_for_status response of Some e \<Rightarrow> Inl e | None \<Rightarrow> response_json response)"

definition create_department ::
  "SmartHRClient \<Rightarrow> model \<Rightarrow> transport \<Rightarrow> request list \<Rightarrow> result" where
  "create_department self department_data tr log =
     on_response
       (requests_request tr
          \<lparr>req_method = POST, req_url = base_url self @ ''/v1/departments'',
            req_params = None, req_json = Some (model_dict True True department_data),
            req_headers = headers self\<rparr> log)
       (\<lambda>response.
          case raise_for_status response of Some e \<Rightarrow> Inl e | None \<Rightarrow> response_json response)"

text \<open>
  \<open>list_employment_types\<close> is defined twice in the class; the second definition
  replaces the first. It builds the same \<open>params\<close> and ends there, so the method that
  is called issues no request and returns \<open>None\<close>. The first definition is kept under
  the name \<open>list_employment_types_replaced\<close>.
\<close>

definition list_employment_types_params ::
  "int option \<Rightarrow> int option \<Rightarrow> (string \<times> pyval) list" where
  "list_employment_types_params page per_page =
     [(''page'', PInt (default_arg 1 page)), (''per_page'', PInt (default_arg 10 per_page))]"

definition list_employment_types_replaced ::
  "SmartHRClient \<Rightarrow> int option \<Rightarrow> int option \<Rightarrow> transport \<Rightarrow> request list \<Rightarrow> result" where
  "list_employment_types_replaced self page per_page tr log =
     on_response
       (requests_request tr
          \<lparr>req_method = GET, req_url = base_url self @ ''/v1/employment_types'',
            req_params = Some (list_employment_types_params page per_page), req_json = None,
            req_headers = headers self\<rparr> log)
       (\<lambda>response.
          case raise_for_status response of Some e \<Rightarrow> Inl e | None \<Rightarrow> response_json response)"

definition list_employment_types ::
  "SmartHRClient \<Rightarrow> int option \<Rightarrow> int option \<Rightarrow> transport \<Rightarrow> request list \<Rightarrow> result" where
  "list_employment_types self page per_page tr log =
     (let params = list_employment_types_params page per_page in (Inr PNone, log))"

definition list_job_titles_params ::
  "int option \<Rightarrow> int option \<Rightarrow> string option \<Rightarrow> (string \<times> pyval) list" where
  "list_job_titles_params page per_page sort_order =
     set_if ''sort'' (opt_str sort_order)
       ([(''page'', PInt (default_arg 1 page)), (''per_page'', PInt (default_arg 10 per_page))])"

definition list_job_titles ::
  "SmartHRClient \<Rightarrow> int option \<Rightarrow> int option \<Rightarrow> string option \<Rightarrow> transport \<Rightarrow> request list \<Rightarrow> result" where
  "list_job_titles self page per_page sort_order tr log =
     on_response
       (requests_request tr
          \<lparr>req_method = GET, req_url = base_url self @ ''/v1/job_titles'',
            req_params = Some (list_job_titles_params page per_page sort_order), req_json = None,
            req_headers = headers self\<rparr> log)
       (\<lambda>response.
          case raise_for_status response of Some e \<Rightarrow> Inl e | None \<Rightarrow> response_json response)"

definition create_job_title ::
  "SmartHRClient \<Rightarrow> model \<Rightarrow> transport \<Rightarrow> request list \<Rightarrow> result" where
  "create_job_title self job_title_data tr log =
     on_response
       (requests_request tr
          \<lparr>req_method = POST, req_url = base_url self @ ''/v1/job_titles'',
            req_params = None, req_json = Some (model_dict True True job_title_data),
            req_headers = headers self\<rparr> log)
       (\<lambda>response.
          case raise_for_status response of Some e \<Rightarrow> Inl e | None \<Rightarrow> response_json response)"

definition get_job_title ::
  "SmartHRClient \<Rightarrow> string \<Rightarrow> transport \<Rightarrow> request list \<Rightarrow> result" where
  "get_job_title self job_title_id tr log =
     on_response
       (requests_request tr
          \<lparr>req_method = GET, req_url = base_url self @ ''/v1/job_titles/'' @ job_title_id,
            req_params = None, req_json = None,
            req_headers = headers self\<rparr> log)
       (\<lambda>response.
          case raise_for_status response of Some e \<Rightarrow> Inl e | None \<Rightarrow> response_json response)"

definition update_job_title ::
  "SmartHRClient \<Rightarrow> string \<Rightarrow> model \<Rightarrow> transport \<Rightarrow> request list \<Rightarrow> result" where
  "update_job_title self job_title_id job_title_data tr log =
     on_response
       (requests_request tr
          \<lparr>req_method = PUT, req_url = base_url self @ ''/v1/job_titles/'' @ job_title_id,
            req_params = None, req_json = Some (model_dict False False job_title_data),
            req_headers = headers self\<rparr> log)
       (\<lambda>response.
          case raise_for_status response of Some e \<Rightarrow> Inl e | None \<Rightarrow> response_json response)"

definition partial_update_job_title ::
  "SmartHRClient \<Rightarrow> string \<Rightarrow> model \<Rightarrow> transport \<Rightarrow> request list \<Rightarrow> result" where
  "partial_update_job_title self job_title_id job_title_data tr log =
     on_response
       (requests_request tr
          \<lparr>req_method = PATCH, req_url = base_url self @ ''/v1/job_titles/'' @ job_title_id,
            req_params = None, req_json = Some (model_dict True True job_title_data),
            req_headers = headers self\<rparr> log)
       (\<lambda>response.
          case raise_for_status response of Some e \<Rightarrow> Inl e | None \<Rightarrow> response_json response)"

text \<open>
  \<open>delete_job_title\<close>: after the \<open>DELETE\<close> and its \<open>raise_for_status\<close> the body goes
  on with a \<open>GET\<close> of the employment types and returns its JSON.
\<close>

definition delete_job_title ::
  "SmartHRClient \<Rightarrow> string \<Rightarrow> transport \<Rightarrow> request list \<Rightarrow> result" where
  "delete_job_title self job_title_id tr log =
     (case requests_request tr
             \<lparr>req_method = DELETE, req_url = base_url self @ ''/v1/job_titles/'' @ job_title_id,
               req_params = None, req_json = None,
               req_headers = headers self\<rparr> log of
        (Inl e, log1) \<Rightarrow> (Inl e, log1)
      | (Inr response, log1) \<Rightarrow>
          (case raise_for_status response of
             Some e \<Rightarrow> (Inl e, log1)
           | None \<Rightarrow>
               on_response
                 (requests_request tr
                    \<lparr>req_method = GET, req_url = base_url self @ ''/v1/employment_types'',
                      req_params = None, req_json = None,
                      req_headers = headers self\<rparr> log1)
                 (\<lambda>response.
                    case raise_for_status response of
                      Some e \<Rightarrow> Inl e | None \<Rightarrow> response_json response)))"

text \<open>
  \<open>discontinue_department\<close> parses the string of its caller, which may be any string.
  So that no string the library parses is left out (a year in fullwidth digits, say),
  the operation takes the parser as a parameter: \<open>strptime\<close> is
  \<open>datetime.strptime(v, '%Y-%m-%d').date()\<close>, any function from a string to the date
  or to the exception raised. The validator and the model of the discontinue request
  are taken with the same parser; at \<open>strptime_ymd\<close> they are
  \<open>DepartmentDiscontinueRequest_validate_discontinued_date\<close> and
  \<open>DepartmentDiscontinueRequest\<close>.
\<close>

definition validate_discontinued_date_with ::
  "(string \<Rightarrow> error + date) \<Rightarrow> date \<Rightarrow> string \<Rightarrow> error + string" where
  "validate_discontinued_date_with strptime now v =
     (case (case strptime v of
              Inl e \<Rightarrow> Inl e
            | Inr discontinued_date \<Rightarrow>
                (if date_lt now discontinued_date then Inl (ValueError msg_discontinued_past)
                 else Inr ())) of
        Inl (ValueError m) \<Rightarrow> Inl (ValueError msg_discontinued_format)
      | Inl e \<Rightarrow> Inl e
      | Inr u \<Rightarrow> Inr v)"

definition DepartmentDiscontinueRequest_fields_with ::
  "(string \<Rightarrow> error + date) \<Rightarrow> date \<Rightarrow> field_spec list" where
  "DepartmentDiscontinueRequest_fields_with strptime now =
     [with_validator (required_field type_str ''discontinued_date'')
        (str_validator (validate_discontinued_date_with strptime now))]"

definition DepartmentDiscontinueRequest_with ::
  "(string \<Rightarrow> error + date) \<Rightarrow> date \<Rightarrow> (string \<times> pyval) list \<Rightarrow> error + model" where
  "DepartmentDiscontinueRequest_with strptime now kw =
     construct (DepartmentDiscontinueRequest_fields_with strptime now) kw"

text \<open>
  \<open>discontinue_department\<close> reads the clock itself (\<open>today\<close> is
  \<open>datetime.today().date()\<close>) before it builds the request model, whose validator reads
  it again (\<open>now\<close>). \<open>strptime\<close> is outside any \<open>try\<close>: its \<open>ValueError\<close> goes to the
  caller.
\<close>

definition discontinue_department ::
  "(string \<Rightarrow> error + date) \<Rightarrow> SmartHRClient \<Rightarrow> string \<Rightarrow> string \<Rightarrow> date \<Rightarrow> date \<Rightarrow>
   transport \<Rightarrow> request list \<Rightarrow> result" where
  "discontinue_department strptime self department_id discontinued_date today now tr log =
     (case strptime discontinued_date of
        Inl e \<Rightarrow> (Inl e, log)
      | Inr target_date \<Rightarrow>
          (if date_le today target_date then (Inl (ValueError msg_discontinue_not_past), log)
           else
             (case DepartmentDiscontinueRequest_with strptime now
                     [(''discontinued_date'', PStr discontinued_date)] of
                Inl e \<Rightarrow> (Inl e, log)
              | Inr payload \<Rightarrow>
                  on_response
                    (requests_request tr
                       \<lparr>req_method = POST,
                         req_url = base_url self @ ''/v1/departments/'' @ department_id
                                   @ ''/discontinue'',
                         req_params = None, req_json = Some (model_dict False False payload),
                         req_headers = headers self\<rparr> log)
                    (\<lambda>response.
                       case raise_for_status response of
                         Some e \<Rightarrow> Inl e
                       | None \<Rightarrow>
                           Inr (PDict [(''status'', PInt (status_code response)),
                                       (''message'',
                                        PStr ''Department discontinued successfully'')])))))"

definition create_employment_type ::
  "SmartHRClient \<Rightarrow> model \<Rightarrow> transport \<Rightarrow> request list \<Rightarrow> result" where
  "create_employment_type self employment_type_data tr log =
     on_response
       (requests_request tr
          \<lparr>req_method = POST, req_url = base_url self @ ''/v1/employment_types'',
            req_params = None, req_json = Some (model_dict True True employment_type_data),
            req_headers = headers self\<rparr> log)
       (\<lambda>response.
          case raise_for_status response of Some e \<Rightarrow> Inl e | None \<Rightarrow> response_json response)"

definition get_employment_type ::
  "SmartHRClient \<Rightarrow> string \<Rightarrow> transport \<Rightarrow> request list \<Rightarrow> result" where
  "get_employment_type self employment_type_id tr log =
     on_response
       (requests_request tr
          \<lparr>req_method = GET, req_url = base_url self @ ''/v1/employment_types/'' @ employment_type_id,
            req_params = None, req_json = None,
            req_headers = headers self\<rparr> log)
       (\<lambda>response.
          case raise_for_status response of Some e \<Rightarrow> Inl e | None \<Rightarrow> response_json response)"

definition update_employment_type ::
  "SmartHRClient \<Rightarrow> string \<Rightarrow> model \<Rightarrow> transport \<Rightarrow> request list \<Rightarrow> result" where
  "update_employment_type self employment_type_id employment_type_data tr log =
     on_response
       (requests_request tr
          \<lparr>req_method = PUT, req_url = base_url self @ ''/v1/employment_types/'' @ employment_type_id,
            req_params = None, req_json = Some (model_dict False False employment_type_data),
            req_headers = headers self\<rparr> log)
       (\<lambda>response.
          case raise_for_status response of Some e \<Rightarrow> Inl e | None \<Rightarrow> response_json response)"

definition partial_update_employment_type ::
  "SmartHRClient \<Rightarrow> string \<Rightarrow> model \<Rightarrow> transport \<Rightarrow> request list \<Rightarrow> result" where
  "partial_update_employment_type self employment_type_id employment_type_data tr log =
     on_response
       (requests_request tr
          \<lparr>req_method = PATCH, req_url = base_url self @ ''/v1/employment_types/'' @ employment_type_id,
            req_params = None, req_json = Some (model_dict True True employment_type_data),
            req_headers = headers self\<rparr> log)
       (\<lambda>response.
          case raise_for_status response of Some e \<Rightarrow> Inl e | None \<Rightarrow> response_json response)"

text \<open>\<open>delete_employment_type\<close> is defined twice, with the same body.\<close>

definition delete_employment_type ::
  "SmartHRClient \<Rightarrow> string \<Rightarrow> transport \<Rightarrow> request list \<Rightarrow> result" where
  "delete_employment_type self employment_type_id tr log =
     on_response
       (requests_request tr
          \<lparr>req_method = DELETE, req_url = base_url self @ ''/v1/employment_types/'' @ employment_type_id,
            req_params = None, req_json = None,
            req_headers = headers self\<rparr> log)
       (\<lambda>response.
          case raise_for_status response of Some e \<Rightarrow> Inl e | None \<Rightarrow> Inr PNone)"

definition list_grades_params ::
  "int option \<Rightarrow> int option \<Rightarrow> string option \<Rightarrow> (string \<times> pyval) list" where
  "list_grades_params page per_page sort_order =
     set_if ''sort'' (opt_str sort_order)
       ([(''page'', PInt (default_arg 1 page)), (''per_page'', PInt (default_arg 10 per_page))])"

definition list_grades ::
  "SmartHRClient \<Rightarrow> int option \<Rightarrow> int option \<Rightarrow> string option \<Rightarrow> transport \<Rightarrow> request list \<Rightarrow> result" where
  "list_grades self page per_page sort_order tr log =
     on_response
       (requests_request tr
          \<lparr>req_method = GET, req_url = base_url self @ ''/v1/grades'',
            req_params = Some (list_grades_params page per_page sort_order), req_json = None,
            req_headers = headers self\<rparr> log)
       (\<lambda>response.
          case raise_for_status response of Some e \<Rightarrow> Inl e | None \<Rightarrow> response_json response)"

definition create_grade ::
  "SmartHRClient \<Rightarrow> model \<Rightarrow> transport \<Rightarrow> request list \<Rightarrow> result" where
  "create_grade self grade_data tr log =
     on_response
       (requests_request tr
          \<lparr>req_method = POST, req_url = base_url self @ ''/v1/grades'',
            req_params = None, req_json = Some (model_dict True True grade_data),
            req_headers = headers self\<rparr> log)
       (\<lambda>response.
          case raise_for_status response of Some e \<Rightarrow> Inl e | None \<Rightarrow> response_json response)"

definition get_grade ::
  "SmartHRClient \<Rightarrow> string \<Rightarrow> transport \<Rightarrow> request list \<Rightarrow> result" where
  "get_grade self grade_id tr log =
     on_response
       (requests_request tr
          \<lparr>req_method = GET, req_url = base_url self @ ''/v1/grades/'' @ grade_id,
            req_params = None, req_json = None,
            req_headers = headers self\<rparr> log)
       (\<lambda>response.
          case raise_for_status response of Some e \<Rightarrow> Inl e | None \<Rightarrow> response_json response)"

definition update_grade ::
  "SmartHRClient \<Rightarrow> string \<Rightarrow> model \<Rightarrow> transport \<Rightarrow> request list \<Rightarrow> result" where
  "update_grade self grade_id grade_data tr log =
     on_response
       (requests_request tr
          \<lparr>req_method = PUT, req_url = base_url self @ ''/v1/grades/'' @ grade_id,
            req_params = None, req_json = Some (model_dict True True grade_data),
            req_headers = headers self\<rparr> log)
       (\<lambda>response.
          case raise_for_status response of Some e \<Rightarrow> Inl e | None \<Rightarrow> response_json response)"

definition partial_update_grade ::
  "SmartHRClient \<Rightarrow> string \<Rightarrow> model \<Rightarrow> transport \<Rightarrow> request list \<Rightarrow> result" where
  "partial_update_grade self grade_id grade_data tr log =
     on_response
       (requests_request tr
          \<lparr>req_method = PATCH, req_url = base_url self @ ''/v1/grades/'' @ grade_id,
            req_params = None, req_json = Some (model_dict True True grade_data),
            req_headers = headers self\<rparr> log)
       (\<lambda>response.
          case raise_for_status response of Some e \<Rightarrow> Inl e | None \<Rightarrow> response_json response)"

text \<open>\<open>delete_grade\<close> ends after the \<open>DELETE\<close>: the response is not looked at.\<close>

definition delete_grade ::
  "SmartHRClient \<Rightarrow> string \<Rightarrow> transport \<Rightarrow> request list \<Rightarrow> result" where
  "delete_grade self grade_id tr log =
     on_response
       (requests_request tr
          \<lparr>req_method = DELETE, req_url = base_url self @ ''/v1/grades/'' @ grade_id,
            req_params = None, req_json = None,
            req_headers = headers self\<rparr> log)
       (\<lambda>response. Inr PNone)"

definition list_job_categories_params ::
  "int option \<Rightarrow> int option \<Rightarrow> string option \<Rightarrow> (string \<times> pyval) list" where
  "list_job_categories_params page per_page sort_order =
     set_if ''sort'' (opt_str sort_order)
       ([(''page'', PInt (default_arg 1 page)), (''per_page'', PInt (default_arg 10 per_page))])"

definition list_job_categories ::
  "SmartHRClient \<Rightarrow> int option \<Rightarrow> int option \<Rightarrow> string option \<Rightarrow> transport \<Rightarrow> request list \<Rightarrow> result" where
  "list_job_categories self page per_page sort_order tr log =
     SmartHRClient_request self GET ''/v1/job_categories''
       (Some (list_job_categories_params page per_page sort_order)) None tr log"

definition create_job_category ::
  "SmartHRClient \<Rightarrow> model \<Rightarrow> transport \<Rightarrow> request list \<Rightarrow> result" where
  "create_job_category self job_category_data tr log =
     SmartHRClient_request self POST (''/v1/job_categories'')
       None (Some (model_dict True True job_category_data)) tr log"

definition get_job_category ::
  "SmartHRClient \<Rightarrow> string \<Rightarrow> transport \<Rightarrow> request list \<Rightarrow> result" where
  "get_job_category self job_category_id tr log =
     SmartHRClient_request self GET (''/v1/job_categories/'' @ job_category_id)
       None None tr log"

text \<open>
  \<open>list_dependents(self, crew_id, page=1, per_page=10, **kwargs)\<close>, called with the
  employee's id and further positional and keyword arguments.
\<close>

definition list_dependents_signature :: signature where
  "list_dependents_signature = [(''page'', PInt 1), (''per_page'', PInt 10)]"

definition list_dependents_params ::
  "(string \<times> pyval) list \<Rightarrow> (string \<times> pyval) list \<Rightarrow> (string \<times> pyval) list" where
  "list_dependents_params args kwargs =
     dict_update [(''page'', arg args ''page''), (''per_page'', arg args ''per_page'')] kwargs"

definition empty_dependents :: "pyval \<Rightarrow> bool" where
  "empty_dependents response =
     (case response of PDict d \<Rightarrow> map_of d ''dependents'' = Some (PList []) | _ \<Rightarrow> False)"

definition list_dependents ::
  "SmartHRClient \<Rightarrow> string \<Rightarrow> pyval list \<Rightarrow> (string \<times> pyval) list \<Rightarrow>
   transport \<Rightarrow> request list \<Rightarrow> result" where
  "list_dependents self crew_id pos kw tr log =
     (case bind_call [''self'', ''crew_id''] list_dependents_signature pos kw of
        Inl e \<Rightarrow> (Inl e, log)
      | Inr (args, kwargs) \<Rightarrow>
          (case SmartHRClient_request self GET (''/v1/crews/'' @ crew_id @ ''/dependents'')
                  (Some (list_dependents_params args kwargs)) None tr log of
             (Inl e, log') \<Rightarrow> (Inl e, log')
           | (Inr response, log') \<Rightarrow>
               (if empty_dependents response
                then (Inr (PDict [(''message'', PStr msg_no_dependents),
                                  (''dependents'', PList [])]), log')
                else (Inr response, log'))))"

definition create_dependent ::
  "SmartHRClient \<Rightarrow> string \<Rightarrow> model \<Rightarrow> transport \<Rightarrow> request list \<Rightarrow> result" where
  "create_dependent self crew_id dependent_data tr log =
     SmartHRClient_request self POST (''/v1/crews/'' @ crew_id @ ''/dependents'')
       None (Some (model_dict False True dependent_data)) tr log"

definition get_dependent ::
  "SmartHRClient \<Rightarrow> string \<Rightarrow> string \<Rightarrow> transport \<Rightarrow> request list \<Rightarrow> result" where
  "get_dependent self crew_id dependent_id tr log =
     SmartHRClient_request self GET (''/v1/crews/'' @ crew_id @ ''/dependents/'' @ dependent_id)
       None None tr log"

definition update_dependent ::
  "SmartHRClient \<Rightarrow> string \<Rightarrow> string \<Rightarrow> model \<Rightarrow> transport \<Rightarrow> request list \<Rightarrow> result" where
  "update_dependent self crew_id dependent_id dependent_data tr log =
     SmartHRClient_request self PUT (''/v1/crews/'' @ crew_id @ ''/dependents/'' @ dependent_id)
       None (Some (model_dict True True dependent_data)) tr log"

definition partial_update_dependent ::
  "SmartHRClient \<Rightarrow> string \<Rightarrow> string \<Rightarrow> model \<Rightarrow> transport \<Rightarrow> request list \<Rightarrow> result" where
  "partial_update_dependent self crew_id dependent_id dependent_data tr log =
     (if \<not> has_required_patch_fields dependent_data
      then (Inl (ValueError msg_dependent_patch_required), log)
      else
        SmartHRClient_request self PATCH
          (''/v1/crews/'' @ crew_id @ ''/dependents/'' @ dependent_id)
          None (Some (model_dict True True dependent_data)) tr log)"

text \<open>\<open>delete_dependent\<close> calls \<open>_request\<close> and drops what it returns.\<close>

definition delete_dependent ::
  "SmartHRClient \<Rightarrow> string \<Rightarrow> string \<Rightarrow> transport \<Rightarrow> request list \<Rightarrow> result" where
  "delete_dependent self crew_id dependent_id tr log =
     (case SmartHRClient_request self DELETE
             (''/v1/crews/'' @ crew_id @ ''/dependents/'' @ dependent_id) None None tr log of
        (Inl e, log') \<Rightarrow> (Inl e, log')
      | (Inr r, log') \<Rightarrow> (Inr PNone, log'))"

definition list_relations_params ::
  "int option \<Rightarrow> int option \<Rightarrow> (string \<times> pyval) list" where
  "list_relations_params page per_page =
     [(''page'', PInt (default_arg 1 page)), (''per_page'', PInt (default_arg 100 per_page))]"

definition list_relations ::
  "SmartHRClient \<Rightarrow> int option \<Rightarrow> int option \<Rightarrow> transport \<Rightarrow> request list \<Rightarrow> result" where
  "list_relations self page per_page tr log =
     on_response
       (requests_request tr
          \<lparr>req_method = GET, req_url = base_url self @ ''/v1/dependent_relations'',
            req_params = Some (list_relations_params page per_page), req_json = None,
            req_headers = headers self\<rparr> log)
       (\<lambda>response.
          case raise_for_status response of Some e \<Rightarrow> Inl e | None \<Rightarrow> response_json response)"

section \<open>Example inputs\<close>

text \<open>
  A client as \<open>__init__\<close> builds it, and transports that give the same answer to every
  request: a success without content, a failure, and successes with a JSON body.
\<close>

definition example_client :: SmartHRClient where
  "example_client =
     \<lparr>base_url = ''https://app.smarthr.jp/api'', api_key = ''key'',
      headers = [(''Authorization'', ''Bearer key''),
                 (''Content-Type'', ''application/json'')]\<rparr>"

definition always :: "response \<Rightarrow> transport" where
  "always r log q = Response r"

definition no_content :: response where
  "no_content = \<lparr>status_code = 204, body_text = [], json_body = None\<rparr>"

definition not_found :: response where
  "not_found = \<lparr>status_code = 404, body_text = ''Not Found'', json_body = None\<rparr>"

definition ok_json :: "pyval \<Rightarrow> response" where
  "ok_json j = \<lparr>status_code = 200, body_text = [], json_body = Some j\<rparr>"

section \<open>Properties of the request models\<close>

lemmas field_defs =
  required_field_def optional_field_def optional_default_def with_validator_def

lemmas type_defs = type_str_def type_int_def type_bool_def type_enum_def

lemmas adapter_defs =
  str_validator_def int_validator_def opt_str_validator_def opt_int_validator_def

lemmas rank_defs =
  JobTitleCreateRequest_validate_rank_def JobTitleUpdateRequest_validate_rank_def
  JobTitlePartialUpdateRequest_validate_rank_def GradeCreateRequest_validate_rank_def
  GradeUpdateRequest_validate_rank_def GradePartialUpdateRequest_validate_rank_def

lemmas model_defs = construct_def validate_field_def field_defs type_defs adapter_defs

lemma JobTitleCreateRequest_rank:
  "isl (JobTitleCreateRequest [(''name'', PStr n), (''rank'', PInt r)]) = (r < 1 \<or> 99999 < r)"
  by (auto simp add: JobTitleCreateRequest_def JobTitleCreateRequest_fields_def
      model_defs rank_defs)

lemma JobTitleUpdateRequest_rank:
  "isl (JobTitleUpdateRequest [(''name'', PStr n), (''rank'', PInt r)]) = (r < 1 \<or> 99999 < r)"
  by (auto simp add: JobTitleUpdateRequest_def JobTitleUpdateRequest_fields_def
      model_defs rank_defs)

lemma JobTitlePartialUpdateRequest_rank:
  "isl (JobTitlePartialUpdateRequest [(''rank'', PInt r)]) = (r < 1 \<or> 99999 < r)"
  by (auto simp add: JobTitlePartialUpdateRequest_def JobTitlePartialUpdateRequest_fields_def
      model_defs rank_defs)

lemma GradeCreateRequest_rank:
  "isl (GradeCreateRequest [(''name'', PStr n), (''rank'', PInt r)]) = (r < 1 \<or> 99999 < r)"
  by (auto simp add: GradeCreateRequest_def GradeCreateRequest_fields_def
      model_defs rank_defs)

lemma GradeUpdateRequest_rank:
  "isl (GradeUpdateRequest [(''name'', PStr n), (''rank'', PInt r)]) = (r < 1 \<or> 99999 < r)"
  by (auto simp add: GradeUpdateRequest_def GradeUpdateRequest_fields_def
      model_defs rank_defs)

lemma GradePartialUpdateRequest_rank:
  "isl (GradePartialUpdateRequest [(''rank'', PInt r)]) = (r < 1 \<or> 99999 < r)"
  by (auto simp add: GradePartialUpdateRequest_def GradePartialUpdateRequest_fields_def
      model_defs rank_defs)

text \<open>
  C8. For every integer rank, each of the six rank validators (job title and grade;
  create, update and partial update) raises exactly when the rank is outside 1 to
  99999 and returns the rank otherwise; and a model built with that rank (and a name,
  where the model requires one) fails validation exactly when the rank is outside
  the range.
\<close>

theorem rank_accepted_iff_in_range:
  "JobTitleCreateRequest_validate_rank r =
     (if 1 \<le> r \<and> r \<le> 99999 then Inr r else Inl (ValueError msg_job_title_rank))
   \<and> JobTitleUpdateRequest_validate_rank r =
     (if 1 \<le> r \<and> r \<le> 99999 then Inr r else Inl (ValueError msg_job_title_rank))
   \<and> JobTitlePartialUpdateRequest_validate_rank (Some r) =
     (if 1 \<le> r \<and> r \<le> 99999 then Inr (Some r) else Inl (ValueError msg_job_title_rank))
   \<and> GradeCreateRequest_validate_rank r =
     (if 1 \<le> r \<and> r \<le> 99999 then Inr r else Inl (ValueError msg_grade_rank))
   \<and> GradeUpdateRequest_validate_rank r =
     (if 1 \<le> r \<and> r \<le> 99999 then Inr r else Inl (ValueError msg_grade_rank))
   \<and> GradePartialUpdateRequest_validate_rank (Some r) =
     (if 1 \<le> r \<and> r \<le> 99999 then Inr (Some r) else Inl (ValueError msg_grade_rank))
   \<and> isl (JobTitleCreateRequest [(''name'', PStr n), (''rank'', PInt r)]) = (r < 1 \<or> 99999 < r)
   \<and> isl (JobTitleUpdateRequest [(''name'', PStr n), (''rank'', PInt r)]) = (r < 1 \<or> 99999 < r)
   \<and> isl (JobTitlePartialUpdateRequest [(''rank'', PInt r)]) = (r < 1 \<or> 99999 < r)
   \<and> isl (GradeCreateRequest [(''name'', PStr n), (''rank'', PInt r)]) = (r < 1 \<or> 99999 < r)
   \<and> isl (GradeUpdateRequest [(''name'', PStr n), (''rank'', PInt r)]) = (r < 1 \<or> 99999 < r)
   \<and> isl (GradePartialUpdateRequest [(''rank'', PInt r)]) = (r < 1 \<or> 99999 < r)"
  unfolding JobTitleCreateRequest_rank JobTitleUpdateRequest_rank
    JobTitlePartialUpdateRequest_rank GradeCreateRequest_rank GradeUpdateRequest_rank
    GradePartialUpdateRequest_rank
  by (auto simp add: rank_defs)

section \<open>Dictionaries, argument binding and the requests an operation issues\<close>

lemma map_of_dict_set: "map_of (dict_set k v d) k' = (if k' = k then Some v else map_of d k')"
  by (induction d) auto

lemma map_of_set_if: "k' \<noteq> k \<Longrightarrow> map_of (set_if k v d) k' = map_of d k'"
  by (simp add: set_if_def map_of_dict_set)

lemma map_of_dict_update:
  "map_of (dict_update d e) k =
     (case map_of (rev e) k of Some v \<Rightarrow> Some v | None \<Rightarrow> map_of d k)"
proof (induction e arbitrary: d)
  case Nil
  show ?case by simp
next
  case (Cons kv e)
  obtain k1 v1 where kv: "kv = (k1, v1)" by (cases kv)
  show ?case
    by (simp add: kv Cons.IH map_of_dict_set map_add_def split: option.splits)
qed

lemma bind_keywords_splits:
  "bind_keywords declared taken kw = Inr (bound, kwargs) \<Longrightarrow>
     bound = filter (\<lambda>kv. fst kv \<in> set declared) kw
     \<and> kwargs = filter (\<lambda>kv. fst kv \<notin> set declared) kw
     \<and> distinct (map fst kw) \<and> set (map fst kw) \<inter> set taken = {}"
proof (induction declared taken kw arbitrary: bound kwargs rule: bind_keywords.induct)
  case (1 declared taken)
  then show ?case by simp
next
  case (2 declared taken k v kw)
  from "2.prems" have nt: "k \<notin> set taken"
    by (auto split: if_splits)
  from "2.prems" nt obtain b' k' where
    rec: "bind_keywords declared (k # taken) kw = Inr (b', k')"
    by (auto split: sum.splits)
  from "2.IH"[OF nt rec] have ih:
    "b' = filter (\<lambda>kv. fst kv \<in> set declared) kw"
    "k' = filter (\<lambda>kv. fst kv \<notin> set declared) kw"
    "distinct (map fst kw)" "set (map fst kw) \<inter> set (k # taken) = {}"
    by auto
  from "2.prems" nt rec have res:
    "bound = (if k \<in> set declared then (k, v) # b' else b')"
    "kwargs = (if k \<in> set declared then k' else (k, v) # k')"
    by (auto split: if_splits)
  show ?case using ih res nt by auto
qed


lemma map_of_rev_distinct: "distinct (map fst e) \<Longrightarrow> map_of (rev e) k = map_of e k"
proof (induction e)
  case Nil
  show ?case by simp
next
  case (Cons a e)
  then have ih: "map_of (rev e) k = map_of e k" and fresh: "fst a \<notin> fst ` set e"
    by auto
  from fresh have none: "map_of e (fst a) = None"
    by (simp add: map_of_eq_None_iff)
  show ?case
    using ih none by (cases a) (auto simp add: map_add_def split: option.splits)
qed

lemma map_of_fold_set_if:
  "k \<notin> set ns \<Longrightarrow> map_of (fold (\<lambda>n. set_if n (f n)) ns d) k = map_of d k"
  by (induction ns arbitrary: d) (auto simp add: map_of_set_if)

lemma bind_positional_names:
  "bind_positional sg pos = Inr b \<Longrightarrow> map fst b = take (length pos) (map fst sg)"
proof (induction sg pos arbitrary: b rule: bind_positional.induct)
  case (1 sg)
  then show ?case by simp
next
  case (2 v vs)
  then show ?case by simp
next
  case (3 n d sg v vs)
  then show ?case by (auto split: sum.splits)
qed

lemma map_of_with_defaults:
  "map_of (with_defaults sg bound) k =
     map_option (\<lambda>d. case map_of bound k of Some v \<Rightarrow> v | None \<Rightarrow> d) (map_of sg k)"
  unfolding with_defaults_def by (induction sg) (auto split: option.splits)

lemma bind_call_kwargs:
  assumes "bind_call receiver sg pos kw = Inr (args, kwargs)"
  shows "kwargs = filter (\<lambda>kv. fst kv \<notin> set (map fst sg)) kw"
    and "distinct (map fst kwargs)"
proof -
  from assms obtain b bound where
    b: "bind_positional sg pos = Inr b" and
    k: "bind_keywords (map fst sg) (receiver @ map fst b) kw = Inr (bound, kwargs)"
    by (auto simp add: bind_call_def split: sum.splits)
  from bind_keywords_splits[OF k]
  show "kwargs = filter (\<lambda>kv. fst kv \<notin> set (map fst sg)) kw" by simp
  from bind_keywords_splits[OF k] have "distinct (map fst kw)" by simp
  then show "distinct (map fst kwargs)"
    using bind_keywords_splits[OF k] by (simp add: distinct_map_filter)
qed

lemma bind_call_keyword_binds:
  assumes call: "bind_call receiver sg pos kw = Inr (args, kwargs)"
    and given: "(k, v) \<in> set kw" and declared: "k \<in> set (map fst sg)"
  shows "arg args k = v"
proof -
  from call obtain b bound where
    b: "bind_positional sg pos = Inr b" and
    kws: "bind_keywords (map fst sg) (receiver @ map fst b) kw = Inr (bound, kwargs)" and
    args: "args = with_defaults sg (b @ bound)"
    by (auto simp add: bind_call_def split: sum.splits)
  note sp = bind_keywords_splits[OF kws]
  from sp given have notpos: "k \<notin> fst ` set b"
    by (metis (no_types, lifting) Int_iff Un_iff empty_iff image_eqI fst_conv set_append set_map)
  from sp have dist: "distinct (map fst bound)"
    by (simp add: distinct_map_filter)
  from sp given declared have "(k, v) \<in> set bound" by simp
  with dist have "map_of bound k = Some v" by simp
  moreover from notpos have "map_of b k = None" by (simp add: map_of_eq_None_iff)
  ultimately have look: "map_of (b @ bound) k = Some v"
    by (simp add: map_add_def)
  from declared obtain d where "map_of sg k = Some d"
    by (metis (no_types, opaque_lifting) list.set_map map_of_eq_None_iff not_Some_eq)
  with look show ?thesis
    by (simp add: arg_def args map_of_with_defaults)
qed

lemma send_then:
  "on_response (requests_request tr r log) k =
     (case tr log r of ConnectionFault \<Rightarrow> Inl TransportError | Response resp \<Rightarrow> k resp,
      log @ [r])"
  by (simp add: on_response_def requests_request_def split: reply.splits)

lemma kwargs_in_params:
  assumes "distinct (map fst kwargs)" and "kv \<in> set kwargs"
  shows "map_of (dict_update d kwargs) (fst kv) = Some (snd kv)"
proof -
  from assms have "map_of kwargs (fst kv) = Some (snd kv)" by simp
  then show ?thesis
    by (simp add: map_of_dict_update map_of_rev_distinct[OF assms(1)])
qed

lemma declared_in_params:
  assumes "k \<notin> fst ` set kwargs"
  shows "map_of (dict_update d kwargs) k = map_of d k"
proof -
  from assms have "map_of (rev kwargs) k = None" by (simp add: map_of_eq_None_iff)
  then show ?thesis by (simp add: map_of_dict_update)
qed

lemma list_crews_extra:
  assumes call: "bind_call [''self''] list_crews_signature pos kw = Inr (args, kwargs)"
  shows "kwargs = filter (\<lambda>kv. fst kv \<notin> set (map fst list_crews_signature)) kw"
    and "\<forall>kv \<in> set kwargs. map_of (list_crews_params args kwargs) (fst kv) = Some (snd kv)"
    and "map_of (list_crews_params args kwargs) ''page'' = Some (arg args ''page'')"
    and "map_of (list_crews_params args kwargs) ''per_page'' = Some (arg args ''per_page'')"
    and "\<forall>v. (''page'', v) \<in> set kw \<longrightarrow> arg args ''page'' = v"
    and "\<forall>v. (''per_page'', v) \<in> set kw \<longrightarrow> arg args ''per_page'' = v"
    and "snd (list_crews self pos kw tr log) =
           log @ [\<lparr>req_method = GET, req_url = base_url self @ ''/v1/crews'',
                    req_params = Some (list_crews_params args kwargs), req_json = None,
                    req_headers = headers self\<rparr>]"
proof -
  note kw = bind_call_kwargs[OF call]
  show "kwargs = filter (\<lambda>kv. fst kv \<notin> set (map fst list_crews_signature)) kw"
    by (rule kw(1))
  show "\<forall>kv \<in> set kwargs. map_of (list_crews_params args kwargs) (fst kv) = Some (snd kv)"
    unfolding list_crews_params_def using kwargs_in_params[OF kw(2)] by blast
  have p: "''page'' \<notin> fst ` set kwargs" and pp: "''per_page'' \<notin> fst ` set kwargs"
    by (subst kw(1), simp add: list_crews_signature_def image_iff)+
  show "map_of (list_crews_params args kwargs) ''page'' = Some (arg args ''page'')"
    unfolding list_crews_params_def
    by (simp add: declared_in_params[OF p] map_of_set_if)
  show "map_of (list_crews_params args kwargs) ''per_page'' = Some (arg args ''per_page'')"
    unfolding list_crews_params_def
    by (simp add: declared_in_params[OF pp] map_of_set_if)
  show "\<forall>v. (''page'', v) \<in> set kw \<longrightarrow> arg args ''page'' = v"
    using bind_call_keyword_binds[OF call, of "''page''"]
    by (simp add: list_crews_signature_def)
  show "\<forall>v. (''per_page'', v) \<in> set kw \<longrightarrow> arg args ''per_page'' = v"
    using bind_call_keyword_binds[OF call, of "''per_page''"]
    by (simp add: list_crews_signature_def)
  show "snd (list_crews self pos kw tr log) =
           log @ [\<lparr>req_method = GET, req_url = base_url self @ ''/v1/crews'',
                    req_params = Some (list_crews_params args kwargs), req_json = None,
                    req_headers = headers self\<rparr>]"
    by (simp add: list_crews_def call send_then)
qed

lemma request_sent:
  "SmartHRClient_request self meth endpoint params js tr log =
     (case tr log \<lparr>req_method = meth, req_url = base_url self @ endpoint,
                    req_params = params, req_json = js, req_headers = headers self\<rparr> of
        ConnectionFault \<Rightarrow> Inl TransportError
      | Response response \<Rightarrow>
          (if status_code response = 204
           then Inr (PDict [(''status'', PInt 204), (''message'', PStr ''No Content'')])
           else case raise_for_status response of
                  Some e \<Rightarrow> Inl e | None \<Rightarrow> response_json response),
      log @ [\<lparr>req_method = meth, req_url = base_url self @ endpoint,
               req_params = params, req_json = js, req_headers = headers self\<rparr>])"
  by (simp add: SmartHRClient_request_def send_then)

lemma list_dependents_extra:
  assumes call:
    "bind_call [''self'', ''crew_id''] list_dependents_signature pos kw = Inr (args, kwargs)"
  shows "kwargs = filter (\<lambda>kv. fst kv \<notin> set (map fst list_dependents_signature)) kw"
    and "\<forall>kv \<in> set kwargs. map_of (list_dependents_params args kwargs) (fst kv) = Some (snd kv)"
    and "map_of (list_dependents_params args kwargs) ''page'' = Some (arg args ''page'')"
    and "map_of (list_dependents_params args kwargs) ''per_page'' = Some (arg args ''per_page'')"
    and "\<forall>v. (''page'', v) \<in> set kw \<longrightarrow> arg args ''page'' = v"
    and "\<forall>v. (''per_page'', v) \<in> set kw \<longrightarrow> arg args ''per_page'' = v"
    and "snd (list_dependents self crew_id pos kw tr log) =
           log @ [\<lparr>req_method = GET,
                    req_url = base_url self @ ''/v1/crews/'' @ crew_id @ ''/dependents'',
                    req_params = Some (list_dependents_params args kwargs), req_json = None,
                    req_headers = headers self\<rparr>]"
proof -
  note kw = bind_call_kwargs[OF call]
  show "kwargs = filter (\<lambda>kv. fst kv \<notin> set (map fst list_dependents_signature)) kw"
    by (rule kw(1))
  show "\<forall>kv \<in> set kwargs. map_of (list_dependents_params args kwargs) (fst kv) = Some (snd kv)"
    unfolding list_dependents_params_def using kwargs_in_params[OF kw(2)] by blast
  have p: "''page'' \<notin> fst ` set kwargs" and pp: "''per_page'' \<notin> fst ` set kwargs"
    by (subst kw(1), simp add: list_dependents_signature_def image_iff)+
  show "map_of (list_dependents_params args kwargs) ''page'' = Some (arg args ''page'')"
    unfolding list_dependents_params_def
    by (simp add: declared_in_params[OF p])
  show "map_of (list_dependents_params args kwargs) ''per_page'' = Some (arg args ''per_page'')"
    unfolding list_dependents_params_def
    by (simp add: declared_in_params[OF pp])
  show "\<forall>v. (''page'', v) \<in> set kw \<longrightarrow> arg args ''page'' = v"
    using bind_call_keyword_binds[OF call, of "''page''"]
    by (simp add: list_dependents_signature_def)
  show "\<forall>v. (''per_page'', v) \<in> set kw \<longrightarrow> arg args ''per_page'' = v"
    using bind_call_keyword_binds[OF call, of "''per_page''"]
    by (simp add: list_dependents_signature_def)
  show "snd (list_dependents self crew_id pos kw tr log) =
           log @ [\<lparr>req_method = GET,
                    req_url = base_url self @ ''/v1/crews/'' @ crew_id @ ''/dependents'',
                    req_params = Some (list_dependents_params args kwargs), req_json = None,
                    req_headers = headers self\<rparr>]"
    by (simp add: list_dependents_def call request_sent split: reply.splits sum.splits)
qed

text \<open>
  Binding in closed form: a call binds when it has no more positional arguments than
  declared parameters, its keywords are pairwise distinct, and none of them names a
  parameter that already has a value; otherwise it is a \<open>TypeError\<close>.
\<close>

lemma bind_positional_closed:
  "bind_positional sg pos =
     (if length pos \<le> length sg then Inr (zip (map fst sg) pos) else Inl TypeError)"
  by (induction sg pos rule: bind_positional.induct) auto

lemma bind_keywords_taken:
  "k \<in> fst ` set kw \<Longrightarrow> k \<in> set taken \<Longrightarrow> bind_keywords declared taken kw = Inl TypeError"
proof (induction kw arbitrary: taken)
  case Nil
  then show ?case by simp
next
  case (Cons a kw)
  obtain k' v where a: "a = (k', v)" by (cases a)
  show ?case
  proof (cases "k' \<in> set taken")
    case True
    then show ?thesis by (simp add: a)
  next
    case False
    with Cons.prems a have "k \<in> fst ` set kw" and "k \<in> set (k' # taken)" by auto
    then have "bind_keywords declared (k' # taken) kw = Inl TypeError" by (rule Cons.IH)
    then show ?thesis by (simp add: a False)
  qed
qed

lemma bind_keywords_repeated:
  "\<not> distinct (map fst kw) \<Longrightarrow> bind_keywords declared taken kw = Inl TypeError"
proof (induction kw arbitrary: taken)
  case Nil
  then show ?case by simp
next
  case (Cons a kw)
  obtain k' v where a: "a = (k', v)" by (cases a)
  show ?case
  proof (cases "k' \<in> fst ` set kw")
    case True
    then have "bind_keywords declared (k' # taken) kw = Inl TypeError"
      by (rule bind_keywords_taken) simp
    then show ?thesis by (simp add: a)
  next
    case False
    with Cons.prems a have "\<not> distinct (map fst kw)" by auto
    then have "bind_keywords declared (k' # taken) kw = Inl TypeError" by (rule Cons.IH)
    then show ?thesis by (simp add: a)
  qed
qed

lemma bind_keywords_ok:
  "distinct (map fst kw) \<Longrightarrow> set (map fst kw) \<inter> set taken = {} \<Longrightarrow>
   bind_keywords declared taken kw =
     Inr (filter (\<lambda>kv. fst kv \<in> set declared) kw, filter (\<lambda>kv. fst kv \<notin> set declared) kw)"
proof (induction kw arbitrary: taken)
  case Nil
  then show ?case by simp
next
  case (Cons a kw)
  obtain k' v where a: "a = (k', v)" by (cases a)
  from Cons.prems a have nt: "k' \<notin> set taken" and d: "distinct (map fst kw)"
    and dj: "set (map fst kw) \<inter> set (k' # taken) = {}"
    by auto
  from Cons.IH[OF d dj] show ?case by (simp add: a nt)
qed

lemma bind_keywords_closed:
  "bind_keywords declared taken kw =
     (if distinct (map fst kw) \<and> set (map fst kw) \<inter> set taken = {}
      then Inr (filter (\<lambda>kv. fst kv \<in> set declared) kw,
                filter (\<lambda>kv. fst kv \<notin> set declared) kw)
      else Inl TypeError)"
proof (cases "distinct (map fst kw)")
  case False
  then show ?thesis by (simp add: bind_keywords_repeated)
next
  case d: True
  show ?thesis
  proof (cases "set (map fst kw) \<inter> set taken = {}")
    case True
    with d show ?thesis by (simp add: bind_keywords_ok)
  next
    case False
    then obtain k where "k \<in> fst ` set kw" and "k \<in> set taken" by auto
    then have "bind_keywords declared taken kw = Inl TypeError" by (rule bind_keywords_taken)
    with False show ?thesis by simp
  qed
qed

lemma bind_call_closed:
  "bind_call receiver sg pos kw =
     (if length pos \<le> length sg \<and> distinct (map fst kw)
         \<and> set (map fst kw) \<inter> set (receiver @ take (length pos) (map fst sg)) = {}
      then Inr (with_defaults sg
                  (zip (map fst sg) pos @ filter (\<lambda>kv. fst kv \<in> set (map fst sg)) kw),
                filter (\<lambda>kv. fst kv \<notin> set (map fst sg)) kw)
      else Inl TypeError)"
proof -
  have z: "length pos \<le> length sg \<Longrightarrow>
             map fst (zip (map fst sg) pos) = take (length pos) (map fst sg)"
    by (simp add: take_map[symmetric] map_fst_zip_take min_def)
  show ?thesis
    by (simp add: bind_call_def bind_positional_closed bind_keywords_closed z)
qed

lemma length_list_crews_signature: "length list_crews_signature = 12"
  by (simp add: list_crews_signature_def)

lemma length_list_dependents_signature: "length list_dependents_signature = 2"
  by (simp add: list_dependents_signature_def)

lemma list_crews_not_bound:
  "\<not> (length pos \<le> 12 \<and> distinct (map fst kw)
       \<and> set (map fst kw) \<inter> set (''self'' # take (length pos) (map fst list_crews_signature)) = {})
   \<Longrightarrow> list_crews self pos kw tr log = (Inl TypeError, log)"
proof -
  assume "\<not> (length pos \<le> 12 \<and> distinct (map fst kw)
       \<and> set (map fst kw) \<inter> set (''self'' # take (length pos) (map fst list_crews_signature)) = {})"
  then have "bind_call [''self''] list_crews_signature pos kw = Inl TypeError"
    by (auto simp add: bind_call_closed length_list_crews_signature)
  then show ?thesis by (simp add: list_crews_def)
qed

lemma list_crews_bound:
  "length pos \<le> 12 \<and> distinct (map fst kw)
     \<and> set (map fst kw) \<inter> set (''self'' # take (length pos) (map fst list_crews_signature)) = {}
   \<Longrightarrow> \<exists>a. bind_call [''self''] list_crews_signature pos kw =
            Inr (a, filter (\<lambda>kv. fst kv \<notin> set (map fst list_crews_signature)) kw)"
  by (simp add: bind_call_closed length_list_crews_signature)

lemma list_dependents_not_bound:
  "\<not> (length pos \<le> 2 \<and> distinct (map fst kw)
       \<and> set (map fst kw) \<inter>
          set (''self'' # ''crew_id'' # take (length pos) (map fst list_dependents_signature)) = {})
   \<Longrightarrow> list_dependents self crew_id pos kw tr log = (Inl TypeError, log)"
proof -
  assume "\<not> (length pos \<le> 2 \<and> distinct (map fst kw)
       \<and> set (map fst kw) \<inter>
          set (''self'' # ''crew_id'' # take (length pos) (map fst list_dependents_signature)) = {})"
  then have "bind_call [''self'', ''crew_id''] list_dependents_signature pos kw = Inl TypeError"
    by (auto simp add: bind_call_closed length_list_dependents_signature)
  then show ?thesis by (simp add: list_dependents_def)
qed

lemma list_dependents_bound:
  "length pos \<le> 2 \<and> distinct (map fst kw)
     \<and> set (map fst kw) \<inter>
        set (''self'' # ''crew_id'' # take (length pos) (map fst list_dependents_signature)) = {}
   \<Longrightarrow> \<exists>a. bind_call [''self'', ''crew_id''] list_dependents_signature pos kw =
            Inr (a, filter (\<lambda>kv. fst kv \<notin> set (map fst list_dependents_signature)) kw)"
  by (simp add: bind_call_closed length_list_dependents_signature)

lemma page_twice:
  assumes "pos \<noteq> []" and "''page'' \<in> fst ` set kw"
  shows "list_crews self pos kw tr log = (Inl TypeError, log)"
    and "list_dependents self crew_id pos kw tr log = (Inl TypeError, log)"
proof -
  from assms(1) obtain v vs where pos: "pos = v # vs" by (cases pos) auto
  from assms(2) have k: "''page'' \<in> set (map fst kw)" by simp
  show "list_crews self pos kw tr log = (Inl TypeError, log)"
    using k by (intro list_crews_not_bound) (auto simp add: pos list_crews_signature_def)
  show "list_dependents self crew_id pos kw tr log = (Inl TypeError, log)"
    using k
    by (intro list_dependents_not_bound) (auto simp add: pos list_dependents_signature_def)
qed

lemma per_page_twice:
  assumes "2 \<le> length pos" and "''per_page'' \<in> fst ` set kw"
  shows "list_crews self pos kw tr log = (Inl TypeError, log)"
    and "list_dependents self crew_id pos kw tr log = (Inl TypeError, log)"
proof -
  from assms(1) obtain v w vs where pos: "pos = v # w # vs"
    by (cases pos; cases "tl pos") auto
  from assms(2) have k: "''per_page'' \<in> set (map fst kw)" by simp
  show "list_crews self pos kw tr log = (Inl TypeError, log)"
    using k by (intro list_crews_not_bound) (auto simp add: pos list_crews_signature_def)
  show "list_dependents self crew_id pos kw tr log = (Inl TypeError, log)"
    using k
    by (intro list_dependents_not_bound) (auto simp add: pos list_dependents_signature_def)
qed

lemmas bind_defs = bind_call_def with_defaults_def list_crews_signature_def
  list_dependents_signature_def

section \<open>Extra keyword arguments of \<open>list_crews\<close> and \<open>list_dependents\<close>\<close>

text \<open>
  C10, as the code has it. Whenever a call of \<open>list_crews\<close> or \<open>list_dependents\<close>
  binds, \<open>kwargs\<close> holds exactly the keyword arguments whose names are not declared
  parameters; each of them is in the query parameters of the one request that is
  issued, with the value the caller gave and without any check; the \<open>page\<close> and
  \<open>per_page\<close> entries are the values of the declared parameters; and a keyword
  argument named \<open>page\<close> or \<open>per_page\<close> is the declared parameter itself. A call that
  gives \<open>page\<close> (or \<open>per_page\<close>) both positionally and as a keyword raises \<open>TypeError\<close>
  and leaves the log as it was, whatever else it passes: there is no call in which a
  keyword overrides the declared argument. The last four parts say when a call binds
  at all, and that a call that does not bind is that \<open>TypeError\<close> without a request.
\<close>

theorem extra_keywords_merged_after_declared:
  "(bind_call [''self''] list_crews_signature pos kw = Inr (args, kwargs) \<longrightarrow>
      kwargs = filter (\<lambda>kv. fst kv \<notin> set (map fst list_crews_signature)) kw
      \<and> (\<forall>kv \<in> set kwargs. map_of (list_crews_params args kwargs) (fst kv) = Some (snd kv))
      \<and> map_of (list_crews_params args kwargs) ''page'' = Some (arg args ''page'')
      \<and> map_of (list_crews_params args kwargs) ''per_page'' = Some (arg args ''per_page'')
      \<and> (\<forall>v. (''page'', v) \<in> set kw \<longrightarrow> arg args ''page'' = v)
      \<and> (\<forall>v. (''per_page'', v) \<in> set kw \<longrightarrow> arg args ''per_page'' = v)
      \<and> snd (list_crews self pos kw tr log) =
           log @ [\<lparr>req_method = GET, req_url = base_url self @ ''/v1/crews'',
                    req_params = Some (list_crews_params args kwargs), req_json = None,
                    req_headers = headers self\<rparr>])
   \<and> (bind_call [''self'', ''crew_id''] list_dependents_signature pos kw = Inr (args, kwargs) \<longrightarrow>
      kwargs = filter (\<lambda>kv. fst kv \<notin> set (map fst list_dependents_signature)) kw
      \<and> (\<forall>kv \<in> set kwargs. map_of (list_dependents_params args kwargs) (fst kv) = Some (snd kv))
      \<and> map_of (list_dependents_params args kwargs) ''page'' = Some (arg args ''page'')
      \<and> map_of (list_dependents_params args kwargs) ''per_page'' = Some (arg args ''per_page'')
      \<and> (\<forall>v. (''page'', v) \<in> set kw \<longrightarrow> arg args ''page'' = v)
      \<and> (\<forall>v. (''per_page'', v) \<in> set kw \<longrightarrow> arg args ''per_page'' = v)
      \<and> snd (list_dependents self crew_id pos kw tr log) =
           log @ [\<lparr>req_method = GET,
                    req_url = base_url self @ ''/v1/crews/'' @ crew_id @ ''/dependents'',
                    req_params = Some (list_dependents_params args kwargs), req_json = None,
                    req_headers = headers self\<rparr>])
   \<and> (pos \<noteq> [] \<and> ''page'' \<in> fst ` set kw \<longrightarrow>
        list_crews self pos kw tr log = (Inl TypeError, log)
        \<and> list_dependents self crew_id pos kw tr log = (Inl TypeError, log))
   \<and> (2 \<le> length pos \<and> ''per_page'' \<in> fst ` set kw \<longrightarrow>
        list_crews self pos kw tr log = (Inl TypeError, log)
        \<and> list_dependents self crew_id pos kw tr log = (Inl TypeError, log))
   \<and> (length pos \<le> 12 \<and> distinct (map fst kw)
        \<and> set (map fst kw) \<inter>
           set (''self'' # take (length pos) (map fst list_crews_signature)) = {} \<longrightarrow>
        (\<exists>a. bind_call [''self''] list_crews_signature pos kw =
            Inr (a, filter (\<lambda>kv. fst kv \<notin> set (map fst list_crews_signature)) kw)))
   \<and> (\<not> (length pos \<le> 12 \<and> distinct (map fst kw)
        \<and> set (map fst kw) \<inter>
           set (''self'' # take (length pos) (map fst list_crews_signature)) = {}) \<longrightarrow>
        list_crews self pos kw tr log = (Inl TypeError, log))
   \<and> (length pos \<le> 2 \<and> distinct (map fst kw)
        \<and> set (map fst kw) \<inter>
           set (''self'' # ''crew_id'' #
                take (length pos) (map fst list_dependents_signature)) = {} \<longrightarrow>
        (\<exists>a. bind_call [''self'', ''crew_id''] list_dependents_signature pos kw =
            Inr (a, filter (\<lambda>kv. fst kv \<notin> set (map fst list_dependents_signature)) kw)))
   \<and> (\<not> (length pos \<le> 2 \<and> distinct (map fst kw)
        \<and> set (map fst kw) \<inter>
           set (''self'' # ''crew_id'' #
                take (length pos) (map fst list_dependents_signature)) = {}) \<longrightarrow>
        list_dependents self crew_id pos kw tr log = (Inl TypeError, log))"
proof (intro conjI)
  show "bind_call [''self''] list_crews_signature pos kw = Inr (args, kwargs) \<longrightarrow>
      kwargs = filter (\<lambda>kv. fst kv \<notin> set (map fst list_crews_signature)) kw
      \<and> (\<forall>kv \<in> set kwargs. map_of (list_crews_params args kwargs) (fst kv) = Some (snd kv))
      \<and> map_of (list_crews_params args kwargs) ''page'' = Some (arg args ''page'')
      \<and> map_of (list_crews_params args kwargs) ''per_page'' = Some (arg args ''per_page'')
      \<and> (\<forall>v. (''page'', v) \<in> set kw \<longrightarrow> arg args ''page'' = v)
      \<and> (\<forall>v. (''per_page'', v) \<in> set kw \<longrightarrow> arg args ''per_page'' = v)
      \<and> snd (list_crews self pos kw tr log) =
           log @ [\<lparr>req_method = GET, req_url = base_url self @ ''/v1/crews'',
                    req_params = Some (list_crews_params args kwargs), req_json = None,
                    req_headers = headers self\<rparr>]"
    by (intro conjI impI; (rule list_crews_extra, assumption))
  show "bind_call [''self'', ''crew_id''] list_dependents_signature pos kw = Inr (args, kwargs) \<longrightarrow>
      kwargs = filter (\<lambda>kv. fst kv \<notin> set (map fst list_dependents_signature)) kw
      \<and> (\<forall>kv \<in> set kwargs. map_of (list_dependents_params args kwargs) (fst kv) = Some (snd kv))
      \<and> map_of (list_dependents_params args kwargs) ''page'' = Some (arg args ''page'')
      \<and> map_of (list_dependents_params args kwargs) ''per_page'' = Some (arg args ''per_page'')
      \<and> (\<forall>v. (''page'', v) \<in> set kw \<longrightarrow> arg args ''page'' = v)
      \<and> (\<forall>v. (''per_page'', v) \<in> set kw \<longrightarrow> arg args ''per_page'' = v)
      \<and> snd (list_dependents self crew_id pos kw tr log) =
           log @ [\<lparr>req_method = GET,
                    req_url = base_url self @ ''/v1/crews/'' @ crew_id @ ''/dependents'',
                    req_params = Some (list_dependents_params args kwargs), req_json = None,
                    req_headers = headers self\<rparr>]"
    by (intro conjI impI; (rule list_dependents_extra, assumption))
  show "pos \<noteq> [] \<and> ''page'' \<in> fst ` set kw \<longrightarrow>
        list_crews self pos kw tr log = (Inl TypeError, log)
        \<and> list_dependents self crew_id pos kw tr log = (Inl TypeError, log)"
    using page_twice by blast
  show "2 \<le> length pos \<and> ''per_page'' \<in> fst ` set kw \<longrightarrow>
        list_crews self pos kw tr log = (Inl TypeError, log)
        \<and> list_dependents self crew_id pos kw tr log = (Inl TypeError, log)"
    using per_page_twice by blast
  show "length pos \<le> 12 \<and> distinct (map fst kw)
        \<and> set (map fst kw) \<inter>
           set (''self'' # take (length pos) (map fst list_crews_signature)) = {} \<longrightarrow>
        (\<exists>a. bind_call [''self''] list_crews_signature pos kw =
            Inr (a, filter (\<lambda>kv. fst kv \<notin> set (map fst list_crews_signature)) kw))"
    using list_crews_bound by blast
  show "\<not> (length pos \<le> 12 \<and> distinct (map fst kw)
        \<and> set (map fst kw) \<inter>
           set (''self'' # take (length pos) (map fst list_crews_signature)) = {}) \<longrightarrow>
        list_crews self pos kw tr log = (Inl TypeError, log)"
    using list_crews_not_bound by blast
  show "length pos \<le> 2 \<and> distinct (map fst kw)
        \<and> set (map fst kw) \<inter>
           set (''self'' # ''crew_id'' #
                take (length pos) (map fst list_dependents_signature)) = {} \<longrightarrow>
        (\<exists>a. bind_call [''self'', ''crew_id''] list_dependents_signature pos kw =
            Inr (a, filter (\<lambda>kv. fst kv \<notin> set (map fst list_dependents_signature)) kw))"
    using list_dependents_bound by blast
  show "\<not> (length pos \<le> 2 \<and> distinct (map fst kw)
        \<and> set (map fst kw) \<inter>
           set (''self'' # ''crew_id'' #
                take (length pos) (map fst list_dependents_signature)) = {}) \<longrightarrow>
        list_dependents self crew_id pos kw tr log = (Inl TypeError, log)"
    using list_dependents_not_bound by blast
qed

theorem extra_keywords_merged_after_declared_witness:
  "bind_call [''self''] list_crews_signature [] [(''page'', PInt 2), (''utm'', PStr ''x'')] =
     Inr ([(''page'', PInt 2), (''per_page'', PInt 10), (''emp_code'', PNone),
           (''emp_type'', PNone), (''employment_type_id'', PNone), (''emp_status'', PNone),
           (''gender'', PNone), (''entered_at_from'', PNone), (''entered_at_to'', PNone),
           (''resigned_at_from'', PNone), (''resigned_at_to'', PNone),
           (''department_id'', PNone)],
          [(''utm'', PStr ''x'')])
   \<and> bind_call [''self'', ''crew_id''] list_dependents_signature []
         [(''page'', PInt 2), (''utm'', PStr ''x'')] =
     Inr ([(''page'', PInt 2), (''per_page'', PInt 10)], [(''utm'', PStr ''x'')])
   \<and> snd (list_crews example_client [] [(''page'', PInt 2), (''utm'', PStr ''x'')]
            (always (ok_json (PDict []))) []) =
       [\<lparr>req_method = GET, req_url = ''https://app.smarthr.jp/api/v1/crews'',
          req_params = Some [(''page'', PInt 2), (''per_page'', PInt 10), (''utm'', PStr ''x'')],
          req_json = None, req_headers = headers example_client\<rparr>]
   \<and> snd (list_dependents example_client ''5'' [] [(''page'', PInt 2), (''utm'', PStr ''x'')]
            (always (ok_json (PDict []))) []) =
       [\<lparr>req_method = GET, req_url = ''https://app.smarthr.jp/api/v1/crews/5/dependents'',
          req_params = Some [(''page'', PInt 2), (''per_page'', PInt 10), (''utm'', PStr ''x'')],
          req_json = None, req_headers = headers example_client\<rparr>]
   \<and> list_crews example_client [PInt 3, PInt 20, PStr ''E1''] [(''page'', PInt 4)]
         (always (ok_json (PDict []))) [] = (Inl TypeError, [])
   \<and> list_dependents example_client ''5'' [PInt 3, PInt 20] [(''per_page'', PInt 50)]
         (always (ok_json (PDict []))) [] = (Inl TypeError, [])"
proof -
  let ?kw = "[(''page'', PInt 2), (''utm'', PStr ''x'')]"
  let ?a1 = "[(''page'', PInt 2), (''per_page'', PInt 10), (''emp_code'', PNone),
           (''emp_type'', PNone), (''employment_type_id'', PNone), (''emp_status'', PNone),
           (''gender'', PNone), (''entered_at_from'', PNone), (''entered_at_to'', PNone),
           (''resigned_at_from'', PNone), (''resigned_at_to'', PNone),
           (''department_id'', PNone)]"
  let ?a2 = "[(''page'', PInt 2), (''per_page'', PInt 10)]"
  let ?k = "[(''utm'', PStr ''x'')]"
  let ?tr = "always (ok_json (PDict []))"
  have b1: "bind_call [''self''] list_crews_signature [] ?kw = Inr (?a1, ?k)"
    by (simp add: bind_defs)
  have b2: "bind_call [''self'', ''crew_id''] list_dependents_signature [] ?kw = Inr (?a2, ?k)"
    by (simp add: bind_defs)
  have p1: "list_crews_params ?a1 ?k =
      [(''page'', PInt 2), (''per_page'', PInt 10), (''utm'', PStr ''x'')]"
    by (simp add: list_crews_params_def arg_def set_if_def)
  have p2: "list_dependents_params ?a2 ?k =
      [(''page'', PInt 2), (''per_page'', PInt 10), (''utm'', PStr ''x'')]"
    by (simp add: list_dependents_params_def arg_def)
  from extra_keywords_merged_after_declared
         [where pos = "[]" and kw = ?kw and args = ?a1 and kwargs = ?k
            and self = example_client and tr = ?tr and log = "[]"] b1
  have r1: "snd (list_crews example_client [] ?kw ?tr []) =
       [\<lparr>req_method = GET, req_url = base_url example_client @ ''/v1/crews'',
          req_params = Some (list_crews_params ?a1 ?k),
          req_json = None, req_headers = headers example_client\<rparr>]"
    by simp
  from extra_keywords_merged_after_declared
         [where pos = "[]" and kw = ?kw and args = ?a2 and kwargs = ?k
            and self = example_client and tr = ?tr and log = "[]" and crew_id = "''5''"] b2
  have r2: "snd (list_dependents example_client ''5'' [] ?kw ?tr []) =
       [\<lparr>req_method = GET,
          req_url = base_url example_client @ ''/v1/crews/'' @ ''5'' @ ''/dependents'',
          req_params = Some (list_dependents_params ?a2 ?k),
          req_json = None, req_headers = headers example_client\<rparr>]"
    by simp
  from extra_keywords_merged_after_declared
         [where pos = "[PInt 3, PInt 20, PStr ''E1'']" and kw = "[(''page'', PInt 4)]"
            and self = example_client and tr = ?tr and log = "[]"]
  have r3: "list_crews example_client [PInt 3, PInt 20, PStr ''E1''] [(''page'', PInt 4)]
         ?tr [] = (Inl TypeError, [])"
    by simp
  from extra_keywords_merged_after_declared
         [where pos = "[PInt 3, PInt 20]" and kw = "[(''per_page'', PInt 50)]"
            and self = example_client and tr = ?tr and log = "[]" and crew_id = "''5''"]
  have r4: "list_dependents example_client ''5'' [PInt 3, PInt 20] [(''per_page'', PInt 50)]
         ?tr [] = (Inl TypeError, [])"
    by simp
  show ?thesis
    using b1 b2 r1 r2 r3 r4 unfolding p1 p2 by (simp add: example_client_def)
qed

text \<open>
  The claim's override needs a call that gives \<open>page\<close> a value as a declared argument
  and another as a keyword. Python refuses such a call: it raises \<open>TypeError\<close> and no
  request is issued.
\<close>

theorem positional_and_keyword_page_is_TypeError:
  "list_crews example_client [PInt 1] [(''page'', PInt 2)] (always (ok_json (PDict []))) []
     = (Inl TypeError, [])
   \<and> list_dependents example_client ''5'' [PInt 1] [(''page'', PInt 2)]
       (always (ok_json (PDict []))) [] = (Inl TypeError, [])"
  by (simp add: list_crews_def list_dependents_def bind_defs)

section \<open>Partial-update models\<close>

text \<open>
  A required field the caller leaves out is an error of the model, whatever else is
  supplied.
\<close>

lemma required_field_missing:
  "f \<in> set fs \<Longrightarrow> required f \<Longrightarrow> map_of kw (fname f) = None \<Longrightarrow>
   fst (validate_model fs kw) \<noteq> []"
  by (induction fs) (auto split: prod.splits option.splits sum.splits)

lemma construct_needs_required:
  assumes "f \<in> set fs" and "required f" and "fname f \<notin> fst ` set kw"
  shows "isl (construct fs kw)"
proof -
  from assms(3) have "map_of kw (fname f) = None" by (simp add: map_of_eq_None_iff)
  from required_field_missing[OF assms(1,2) this] show ?thesis
    by (auto simp add: construct_def split: prod.splits)
qed

lemma DependentPartialUpdateRequest_required:
  assumes "k \<in> set [''relation_id'', ''last_name'', ''first_name'', ''birth_at'', ''gender'',
                      ''live_together_type'']"
    and "k \<notin> fst ` set kw"
  shows "isl (DependentPartialUpdateRequest kw)"
proof -
  let ?t = "if k = ''live_together_type'' then type_enum LiveTogetherType_members else type_str"
  have m: "required_field ?t k \<in> set DependentPartialUpdateRequest_fields"
    using assms(1) by (auto simp add: DependentPartialUpdateRequest_fields_def)
  have r: "required (required_field ?t k)" and n: "fname (required_field ?t k) = k"
    by (simp_all add: required_field_def)
  from construct_needs_required[OF m r] assms(2) n show ?thesis
    by (simp add: DependentPartialUpdateRequest_def)
qed

lemma partial_models_all_omitted:
  "DepartmentPartialUpdateRequest [] =
     Inr (Model [(''name'', PNone), (''position'', PNone), (''code'', PNone),
                 (''parent_id'', PNone)] [])"
  "EmploymentTypePartialUpdateRequest [] = Inr (Model [(''name'', PNone), (''code'', PNone)] [])"
  "JobTitlePartialUpdateRequest [] =
     Inr (Model [(''name'', PNone), (''rank'', PNone), (''code'', PNone)] [])"
  "GradePartialUpdateRequest [] = Inr (Model [(''name'', PNone), (''rank'', PNone)] [])"
  "JobCategoryPartialUpdateRequest [] = Inr (Model [(''name'', PNone)] [])"
  by (simp_all add: DepartmentPartialUpdateRequest_def DepartmentPartialUpdateRequest_fields_def
      EmploymentTypePartialUpdateRequest_def EmploymentTypePartialUpdateRequest_fields_def
      JobTitlePartialUpdateRequest_def JobTitlePartialUpdateRequest_fields_def
      GradePartialUpdateRequest_def GradePartialUpdateRequest_fields_def
      JobCategoryPartialUpdateRequest_def JobCategoryPartialUpdateRequest_fields_def
      construct_def field_defs)

lemmas name_defs = DepartmentCreateRequest_validate_name_def
  DepartmentUpdateRequest_validate_name_def DepartmentPartialUpdateRequest_validate_name_def

lemma Department_name_same:
  "isl (DepartmentPartialUpdateRequest [(''name'', PStr s)]) =
   isl (DepartmentCreateRequest [(''name'', PStr s)])"
  by (simp add: DepartmentPartialUpdateRequest_def DepartmentPartialUpdateRequest_fields_def
      DepartmentCreateRequest_def DepartmentCreateRequest_fields_def model_defs name_defs)

lemma EmploymentType_name_same:
  "isl (EmploymentTypePartialUpdateRequest [(''name'', PStr s)]) =
   isl (EmploymentTypeCreateRequest [(''name'', PStr s)])"
  by (simp add: EmploymentTypePartialUpdateRequest_def EmploymentTypePartialUpdateRequest_fields_def
      EmploymentTypeCreateRequest_def EmploymentTypeCreateRequest_fields_def model_defs)

lemma JobCategory_name_same:
  "isl (JobCategoryPartialUpdateRequest [(''name'', PStr s)]) =
   isl (JobCategoryCreateRequest [(''name'', PStr s)])"
  by (simp add: JobCategoryPartialUpdateRequest_def JobCategoryPartialUpdateRequest_fields_def
      JobCategoryCreateRequest_def JobCategoryCreateRequest_fields_def model_defs)

lemma Dependent_partial_complete:
  "DependentPartialUpdateRequest
     [(''relation_id'', PStr a), (''last_name'', PStr b), (''first_name'', PStr c),
      (''birth_at'', PStr d), (''gender'', PStr ''male''),
      (''live_together_type'', PStr ''living_together'')] \<noteq>
   Inl e"
  by (simp add: DependentPartialUpdateRequest_def DependentPartialUpdateRequest_fields_def
      model_defs LiveTogetherType_members_def)

text \<open>
  C4, as the code has it. The partial-update models of department, employment type,
  job title, grade and job category are built from no field at all, every field then
  being \<open>None\<close> and unset; their validators give, on a supplied name or rank, the
  verdict of the create model's validator, and so do the models. The partial-update
  model of a dependent declares \<open>relation_id\<close>, \<open>last_name\<close>, \<open>first_name\<close>,
  \<open>birth_at\<close>, \<open>gender\<close> and \<open>live_together_type\<close> without a default: it fails
  whenever one of them is left out, and is built when the six are supplied.
\<close>

theorem partial_update_models_validate_supplied_fields:
  "DepartmentPartialUpdateRequest [] =
     Inr (Model [(''name'', PNone), (''position'', PNone), (''code'', PNone),
                 (''parent_id'', PNone)] [])
   \<and> EmploymentTypePartialUpdateRequest [] =
     Inr (Model [(''name'', PNone), (''code'', PNone)] [])
   \<and> JobTitlePartialUpdateRequest [] =
     Inr (Model [(''name'', PNone), (''rank'', PNone), (''code'', PNone)] [])
   \<and> GradePartialUpdateRequest [] = Inr (Model [(''name'', PNone), (''rank'', PNone)] [])
   \<and> JobCategoryPartialUpdateRequest [] = Inr (Model [(''name'', PNone)] [])
   \<and> DepartmentPartialUpdateRequest_validate_name (Some s) =
       map_sum id Some (DepartmentCreateRequest_validate_name s)
   \<and> JobTitlePartialUpdateRequest_validate_rank (Some r) =
       map_sum id Some (JobTitleCreateRequest_validate_rank r)
   \<and> GradePartialUpdateRequest_validate_rank (Some r) =
       map_sum id Some (GradeCreateRequest_validate_rank r)
   \<and> isl (DepartmentPartialUpdateRequest [(''name'', PStr s)]) =
       isl (DepartmentCreateRequest [(''name'', PStr s)])
   \<and> isl (EmploymentTypePartialUpdateRequest [(''name'', PStr s)]) =
       isl (EmploymentTypeCreateRequest [(''name'', PStr s)])
   \<and> isl (JobCategoryPartialUpdateRequest [(''name'', PStr s)]) =
       isl (JobCategoryCreateRequest [(''name'', PStr s)])
   \<and> isl (JobTitlePartialUpdateRequest [(''rank'', PInt r)]) =
       isl (JobTitleCreateRequest [(''name'', PStr n), (''rank'', PInt r)])
   \<and> isl (GradePartialUpdateRequest [(''rank'', PInt r)]) =
       isl (GradeCreateRequest [(''name'', PStr n), (''rank'', PInt r)])
   \<and> (k \<in> set [''relation_id'', ''last_name'', ''first_name'', ''birth_at'', ''gender'',
                  ''live_together_type''] \<and> k \<notin> fst ` set kw \<longrightarrow>
        isl (DependentPartialUpdateRequest kw))
   \<and> \<not> isl (DependentPartialUpdateRequest
         [(''relation_id'', PStr a), (''last_name'', PStr b), (''first_name'', PStr c),
          (''birth_at'', PStr d), (''gender'', PStr ''male''),
          (''live_together_type'', PStr ''living_together'')])"
proof -
  have v: "DepartmentPartialUpdateRequest_validate_name (Some s) =
       map_sum id Some (DepartmentCreateRequest_validate_name s)"
    "JobTitlePartialUpdateRequest_validate_rank (Some r) =
       map_sum id Some (JobTitleCreateRequest_validate_rank r)"
    "GradePartialUpdateRequest_validate_rank (Some r) =
       map_sum id Some (GradeCreateRequest_validate_rank r)"
    by (simp_all add: name_defs rank_defs)
  have d: "k \<in> set [''relation_id'', ''last_name'', ''first_name'', ''birth_at'', ''gender'',
                  ''live_together_type''] \<and> k \<notin> fst ` set kw \<longrightarrow>
        isl (DependentPartialUpdateRequest kw)"
    using DependentPartialUpdateRequest_required by blast
  have c: "\<not> isl (DependentPartialUpdateRequest
         [(''relation_id'', PStr a), (''last_name'', PStr b), (''first_name'', PStr c),
          (''birth_at'', PStr d), (''gender'', PStr ''male''),
          (''live_together_type'', PStr ''living_together'')])"
    using Dependent_partial_complete by (metis isl_def)
  show ?thesis
    unfolding partial_models_all_omitted Department_name_same EmploymentType_name_same
      JobCategory_name_same JobTitleCreateRequest_rank JobTitlePartialUpdateRequest_rank
      GradeCreateRequest_rank GradePartialUpdateRequest_rank
    using v d c by simp
qed

theorem partial_update_models_validate_supplied_fields_witness:
  "''gender'' \<in> set [''relation_id'', ''last_name'', ''first_name'', ''birth_at'', ''gender'',
                  ''live_together_type'']
   \<and> ''gender'' \<notin> fst ` set [(''last_name'', PStr ''Yamada'')]
   \<and> isl (DependentPartialUpdateRequest [(''last_name'', PStr ''Yamada'')])"
  using partial_update_models_validate_supplied_fields
          [where k = "''gender''" and kw = "[(''last_name'', PStr ''Yamada'')]"]
  by simp

text \<open>
  Built from no field, the dependent's partial-update model reports its six required
  fields.
\<close>

theorem DependentPartialUpdateRequest_needs_fields:
  "DependentPartialUpdateRequest [] =
     Inl (ValidationError
       [(''relation_id'', ''field required''), (''last_name'', ''field required''),
        (''first_name'', ''field required''), (''birth_at'', ''field required''),
        (''gender'', ''field required''), (''live_together_type'', ''field required'')])"
  by (simp add: DependentPartialUpdateRequest_def DependentPartialUpdateRequest_fields_def
      construct_def field_defs)

text \<open>
  The create model of a dependent checks \<open>gender\<close>; the partial-update model declares
  no validator for it.
\<close>

lemma Dependent_gender_checked_on_create_only:
  "isl (DependentCreateRequest
         [(''relation_id'', PStr a), (''last_name'', PStr b), (''first_name'', PStr c),
          (''birth_at'', PStr d), (''gender'', PStr ''other''),
          (''live_together_type'', PStr ''living_together'')])
   \<and> \<not> isl (DependentPartialUpdateRequest
         [(''relation_id'', PStr a), (''last_name'', PStr b), (''first_name'', PStr c),
          (''birth_at'', PStr d), (''gender'', PStr ''other''),
          (''live_together_type'', PStr ''living_together'')])"
  by (simp add: DependentCreateRequest_def DependentCreateRequest_fields_def
      DependentPartialUpdateRequest_def DependentPartialUpdateRequest_fields_def
      model_defs LiveTogetherType_members_def DependentCreateRequest_validate_gender_def)

section \<open>The discontinue date\<close>

lemmas strptime_defs = strptime_ymd_def ymd_matches_def month_alts_def day_alts_def dash_def
  two_digits_def one_digit_def is_digit_def digit_val_def valid_date_def days_in_month_def
  is_leap_def

lemma date_lt_not_le: "date_lt a b \<Longrightarrow> \<not> date_le b a"
  by (cases a; cases b) (auto simp add: date_le_def)

lemma date_lt_le_trans: "date_lt a b \<Longrightarrow> date_le b c \<Longrightarrow> date_lt a c"
  by (cases a; cases b; cases c) (auto simp add: date_le_def)

lemma date_lt_asym: "date_lt a b \<Longrightarrow> \<not> date_lt b a"
  by (cases a; cases b) auto

text \<open>
  What the validator of the discontinue request accepts: a string that parses, with a
  date that is not after the date read from the clock. Both of its failures carry the
  message about the format.
\<close>

lemma validate_discontinued_date_accepts:
  "DepartmentDiscontinueRequest_validate_discontinued_date now v =
     (case strptime_ymd v of
        Inl e \<Rightarrow> Inl (ValueError msg_discontinued_format)
      | Inr d \<Rightarrow> if date_lt now d then Inl (ValueError msg_discontinued_format) else Inr v)"
  by (auto simp add: DepartmentDiscontinueRequest_validate_discontinued_date_def strptime_ymd_def
      split: sum.splits list.splits error.splits)

lemma DepartmentDiscontinueRequest_accepts:
  "strptime_ymd v = Inr d \<Longrightarrow> \<not> date_lt now d \<Longrightarrow>
   DepartmentDiscontinueRequest now [(''discontinued_date'', PStr v)] =
     Inr (Model [(''discontinued_date'', PStr v)] [''discontinued_date''])"
  by (simp add: DepartmentDiscontinueRequest_def DepartmentDiscontinueRequest_fields_def
      model_defs validate_discontinued_date_accepts)

text \<open>
  C5. The model's validator compares with \<open>>\<close>: a \<open>discontinued_date\<close> equal to the
  current date parses, passes the validator and builds the model, where the claim
  has it rejected.
\<close>

theorem discontinue_request_accepts_today:
  "strptime_ymd ''2024-06-15'' = Inr (2024, 6, 15)
   \<and> DepartmentDiscontinueRequest_validate_discontinued_date (2024, 6, 15) ''2024-06-15'' =
       Inr ''2024-06-15''
   \<and> DepartmentDiscontinueRequest (2024, 6, 15) [(''discontinued_date'', PStr ''2024-06-15'')] =
       Inr (Model [(''discontinued_date'', PStr ''2024-06-15'')] [''discontinued_date''])"
proof -
  have p: "strptime_ymd ''2024-06-15'' = Inr (2024, 6, 15)"
    by (simp add: strptime_defs)
  have n: "\<not> date_lt (2024, 6, 15) (2024, 6, 15)" by simp
  show ?thesis
    using p DepartmentDiscontinueRequest_accepts[OF p n]
    by (simp add: validate_discontinued_date_accepts)
qed

text \<open>
  With the parser as a parameter: what the validator and the model accept, and that
  they are the ones above at \<open>strptime_ymd\<close>.
\<close>

lemma validate_discontinued_date_with_accepts:
  "strptime v = Inr d \<Longrightarrow> \<not> date_lt now d \<Longrightarrow> validate_discontinued_date_with strptime now v = Inr v"
  by (simp add: validate_discontinued_date_with_def)

lemma DepartmentDiscontinueRequest_with_accepts:
  "strptime v = Inr d \<Longrightarrow> \<not> date_lt now d \<Longrightarrow>
   DepartmentDiscontinueRequest_with strptime now [(''discontinued_date'', PStr v)] =
     Inr (Model [(''discontinued_date'', PStr v)] [''discontinued_date''])"
  by (simp add: DepartmentDiscontinueRequest_with_def DepartmentDiscontinueRequest_fields_with_def
      model_defs validate_discontinued_date_with_accepts)

lemma discontinue_request_at_strptime_ymd:
  "validate_discontinued_date_with strptime_ymd now v =
     DepartmentDiscontinueRequest_validate_discontinued_date now v"
  "DepartmentDiscontinueRequest_with strptime_ymd now kw = DepartmentDiscontinueRequest now kw"
proof -
  have v: "validate_discontinued_date_with strptime_ymd now =
      DepartmentDiscontinueRequest_validate_discontinued_date now"
    by (rule ext)
      (simp add: validate_discontinued_date_with_def
        DepartmentDiscontinueRequest_validate_discontinued_date_def)
  show "validate_discontinued_date_with strptime_ymd now v =
     DepartmentDiscontinueRequest_validate_discontinued_date now v"
    by (simp add: v)
  show "DepartmentDiscontinueRequest_with strptime_ymd now kw = DepartmentDiscontinueRequest now kw"
    by (simp add: DepartmentDiscontinueRequest_with_def DepartmentDiscontinueRequest_def
        DepartmentDiscontinueRequest_fields_with_def DepartmentDiscontinueRequest_fields_def v)
qed

text \<open>
  C6. For every parser, and so for the library's on every string: when the supplied
  date parses and is today or later, \<open>discontinue_department\<close> raises its \<open>ValueError\<close>
  and the log is unchanged, no request was issued. When it parses and is before today,
  the one request issued is the \<open>POST\<close> to \<open>/v1/departments/{id}/discontinue\<close> with the
  date as its body. The model's validator reads the clock after the operation did; the
  second part is for a clock that does not go back in between (\<open>today\<close> is not after
  \<open>now\<close>), which holds in particular when both reads give the same date.
\<close>

theorem discontinue_department_preflight:
  "strptime discontinued_date = Inr target \<Longrightarrow>
     (date_le today target \<longrightarrow>
        discontinue_department strptime self department_id discontinued_date today now tr log =
          (Inl (ValueError msg_discontinue_not_past), log))
   \<and> (date_lt target today \<and> date_le today now \<longrightarrow>
        snd (discontinue_department strptime self department_id discontinued_date today now
               tr log) =
          log @ [\<lparr>req_method = POST,
                   req_url = base_url self @ ''/v1/departments/'' @ department_id
                             @ ''/discontinue'',
                   req_params = None,
                   req_json = Some (PDict [(''discontinued_date'', PStr discontinued_date)]),
                   req_headers = headers self\<rparr>])"
proof (intro conjI impI)
  assume p: "strptime discontinued_date = Inr target" and "date_le today target"
  then show "discontinue_department strptime self department_id discontinued_date today now
               tr log = (Inl (ValueError msg_discontinue_not_past), log)"
    by (simp add: discontinue_department_def)
next
  assume p: "strptime discontinued_date = Inr target"
    and past: "date_lt target today \<and> date_le today now"
  from past have a: "\<not> date_le today target" by (simp add: date_lt_not_le)
  from past have "date_lt target now" by (blast intro: date_lt_le_trans)
  then have b: "\<not> date_lt now target" by (rule date_lt_asym)
  show "snd (discontinue_department strptime self department_id discontinued_date today now
               tr log) =
          log @ [\<lparr>req_method = POST,
                   req_url = base_url self @ ''/v1/departments/'' @ department_id
                             @ ''/discontinue'',
                   req_params = None,
                   req_json = Some (PDict [(''discontinued_date'', PStr discontinued_date)]),
                   req_headers = headers self\<rparr>]"
    by (simp add: discontinue_department_def p a
        DepartmentDiscontinueRequest_with_accepts[where strptime = strptime, OF p b] send_then
        model_dict_def)
qed

theorem discontinue_department_preflight_witness:
  "strptime_ymd ''2024-06-15'' = Inr (2024, 6, 15)
   \<and> strptime_ymd ''2024-06-14'' = Inr (2024, 6, 14)
   \<and> discontinue_department strptime_ymd example_client ''42'' ''2024-06-15'' (2024, 6, 15)
       (2024, 6, 15) (always no_content) [] = (Inl (ValueError msg_discontinue_not_past), [])
   \<and> snd (discontinue_department strptime_ymd example_client ''42'' ''2024-06-14''
       (2024, 6, 15) (2024, 6, 15) (always no_content) []) =
        [\<lparr>req_method = POST,
           req_url = ''https://app.smarthr.jp/api/v1/departments/42/discontinue'',
           req_params = None,
           req_json = Some (PDict [(''discontinued_date'', PStr ''2024-06-14'')]),
           req_headers = headers example_client\<rparr>]"
proof -
  have p1: "strptime_ymd ''2024-06-15'' = Inr (2024, 6, 15)"
    by (simp add: strptime_defs)
  have p2: "strptime_ymd ''2024-06-14'' = Inr (2024, 6, 14)"
    by (simp add: strptime_defs)
  have o1: "date_le (2024, 6, 15) (2024, 6, 15)" by (simp add: date_le_def)
  have o2: "date_lt (2024, 6, 14) (2024, 6, 15) \<and> date_le (2024, 6, 15) (2024, 6, 15)"
    by (simp add: date_le_def)
  from discontinue_department_preflight[where strptime = strptime_ymd
      and discontinued_date = "''2024-06-15''" and target = "(2024, 6, 15)"
      and today = "(2024, 6, 15)" and self = example_client and department_id = "''42''"
      and now = "(2024, 6, 15)" and tr = "always no_content" and log = "[]", OF p1] o1
  have r1: "discontinue_department strptime_ymd example_client ''42'' ''2024-06-15''
       (2024, 6, 15) (2024, 6, 15) (always no_content) [] =
         (Inl (ValueError msg_discontinue_not_past), [])"
    by blast
  from discontinue_department_preflight[where strptime = strptime_ymd
      and discontinued_date = "''2024-06-14''" and target = "(2024, 6, 14)"
      and today = "(2024, 6, 15)" and self = example_client and department_id = "''42''"
      and now = "(2024, 6, 15)" and tr = "always no_content" and log = "[]", OF p2] o2
  have r2: "snd (discontinue_department strptime_ymd example_client ''42'' ''2024-06-14''
       (2024, 6, 15) (2024, 6, 15) (always no_content) []) =
        [\<lparr>req_method = POST,
           req_url = base_url example_client @ ''/v1/departments/'' @ ''42'' @ ''/discontinue'',
           req_params = None,
           req_json = Some (PDict [(''discontinued_date'', PStr ''2024-06-14'')]),
           req_headers = headers example_client\<rparr>]"
    by simp
  show ?thesis using p1 p2 r1 r2 by (simp add: example_client_def)
qed

section \<open>The requests of an operation and the status of its response\<close>

text \<open>
  Apart from \<open>delete_job_title\<close> and the \<open>list_employment_types\<close> in force, every
  operation issues one request per invocation (the operations with a check of their
  own, once the check has passed).
\<close>

lemmas operation_defs =
  create_crew_def get_crew_def update_crew_def search_crews_def invite_crew_def delete_crew_def
  partial_update_department_def update_department_def get_department_def list_departments_def
  create_department_def list_employment_types_replaced_def list_job_titles_def
  create_job_title_def get_job_title_def update_job_title_def partial_update_job_title_def
  create_employment_type_def get_employment_type_def update_employment_type_def
  partial_update_employment_type_def delete_employment_type_def list_grades_def
  create_grade_def get_grade_def update_grade_def partial_update_grade_def delete_grade_def
  list_job_categories_def create_job_category_def get_job_category_def create_dependent_def
  get_dependent_def update_dependent_def delete_dependent_def list_relations_def

lemma one_request_each:
  "length (snd (create_crew self m tr log)) = Suc (length log)"
  "length (snd (get_crew self i flds tr log)) = Suc (length log)"
  "length (snd (update_crew self i m tr log)) = Suc (length log)"
  "length (snd (search_crews self query page per_page pb tr log)) = Suc (length log)"
  "length (snd (invite_crew self i u f tr log)) = Suc (length log)"
  "length (snd (delete_crew self i tr log)) = Suc (length log)"
  "length (snd (partial_update_department self i m tr log)) = Suc (length log)"
  "length (snd (update_department self i m tr log)) = Suc (length log)"
  "length (snd (get_department self i tr log)) = Suc (length log)"
  "length (snd (list_departments self page per_page code sort_order tr log)) = Suc (length log)"
  "length (snd (create_department self m tr log)) = Suc (length log)"
  "length (snd (list_job_titles self page per_page sort_order tr log)) = Suc (length log)"
  "length (snd (create_job_title self m tr log)) = Suc (length log)"
  "length (snd (get_job_title self i tr log)) = Suc (length log)"
  "length (snd (update_job_title self i m tr log)) = Suc (length log)"
  "length (snd (partial_update_job_title self i m tr log)) = Suc (length log)"
  "length (snd (create_employment_type self m tr log)) = Suc (length log)"
  "length (snd (get_employment_type self i tr log)) = Suc (length log)"
  "length (snd (update_employment_type self i m tr log)) = Suc (length log)"
  "length (snd (partial_update_employment_type self i m tr log)) = Suc (length log)"
  "length (snd (delete_employment_type self i tr log)) = Suc (length log)"
  "length (snd (list_grades self page per_page sort_order tr log)) = Suc (length log)"
  "length (snd (create_grade self m tr log)) = Suc (length log)"
  "length (snd (get_grade self i tr log)) = Suc (length log)"
  "length (snd (update_grade self i m tr log)) = Suc (length log)"
  "length (snd (partial_update_grade self i m tr log)) = Suc (length log)"
  "length (snd (delete_grade self i tr log)) = Suc (length log)"
  "length (snd (list_job_categories self page per_page sort_order tr log)) = Suc (length log)"
  "length (snd (create_job_category self m tr log)) = Suc (length log)"
  "length (snd (get_job_category self i tr log)) = Suc (length log)"
  "length (snd (create_dependent self i m tr log)) = Suc (length log)"
  "length (snd (get_dependent self i j tr log)) = Suc (length log)"
  "length (snd (update_dependent self i j m tr log)) = Suc (length log)"
  "length (snd (delete_dependent self i j tr log)) = Suc (length log)"
  "length (snd (list_relations self page per_page tr log)) = Suc (length log)"
  by (simp_all add: operation_defs send_then request_sent split: reply.splits sum.splits)

lemma one_request_when_checks_pass:
  "has_required_patch_fields m \<Longrightarrow>
     length (snd (partial_update_dependent self i j m tr log)) = Suc (length log)"
  "bind_call [''self''] list_crews_signature pos kw = Inr (args, kwargs) \<Longrightarrow>
     length (snd (list_crews self pos kw tr log)) = Suc (length log)"
  "bind_call [''self'', ''crew_id''] list_dependents_signature pos kw = Inr (args, kwargs) \<Longrightarrow>
     length (snd (list_dependents self i pos kw tr log)) = Suc (length log)"
  by (simp_all add: partial_update_dependent_def request_sent list_crews_extra
      list_dependents_extra)

text \<open>
  Answered with a status from 400 to 599, each of the operations below raises the
  \<open>HTTPError\<close> with that status and the text of the body. \<open>delete_grade\<close> is not
  among them.
\<close>

lemma http_error_raised:
  assumes "400 \<le> status_code r" and "status_code r < 600"
  shows "fst (create_crew self m (always r) log) = Inl (HTTPError (status_code r) (body_text r))"
    and "fst (get_crew self i flds (always r) log) = Inl (HTTPError (status_code r) (body_text r))"
    and "fst (update_crew self i m (always r) log) = Inl (HTTPError (status_code r) (body_text r))"
    and "fst (search_crews self query page per_page pb (always r) log)
           = Inl (HTTPError (status_code r) (body_text r))"
    and "fst (invite_crew self i u f (always r) log) = Inl (HTTPError (status_code r) (body_text r))"
    and "fst (delete_crew self i (always r) log) = Inl (HTTPError (status_code r) (body_text r))"
    and "fst (partial_update_department self i m (always r) log)
           = Inl (HTTPError (status_code r) (body_text r))"
    and "fst (update_department self i m (always r) log)
           = Inl (HTTPError (status_code r) (body_text r))"
    and "fst (get_department self i (always r) log) = Inl (HTTPError (status_code r) (body_text r))"
    and "fst (list_departments self page per_page code sort_order (always r) log)
           = Inl (HTTPError (status_code r) (body_text r))"
    and "fst (create_department self m (always r) log)
           = Inl (HTTPError (status_code r) (body_text r))"
    and "fst (list_job_titles self page per_page sort_order (always r) log)
           = Inl (HTTPError (status_code r) (body_text r))"
    and "fst (create_job_title self m (always r) log) = Inl (HTTPError (status_code r) (body_text r))"
    and "fst (get_job_title self i (always r) log) = Inl (HTTPError (status_code r) (body_text r))"
    and "fst (update_job_title self i m (always r) log)
           = Inl (HTTPError (status_code r) (body_text r))"
    and "fst (partial_update_job_title self i m (always r) log)
           = Inl (HTTPError (status_code r) (body_text r))"
    and "fst (delete_job_title self i (always r) log) = Inl (HTTPError (status_code r) (body_text r))"
    and "fst (create_employment_type self m (always r) log)
           = Inl (HTTPError (status_code r) (body_text r))"
    and "fst (get_employment_type self i (always r) log)
           = Inl (HTTPError (status_code r) (body_text r))"
    and "fst (update_employment_type self i m (always r) log)
           = Inl (HTTPError (status_code r) (body_text r))"
    and "fst (partial_update_employment_type self i m (always r) log)
           = Inl (HTTPError (status_code r) (body_text r))"
    and "fst (delete_employment_type self i (always r) log)
           = Inl (HTTPError (status_code r) (body_text r))"
    and "fst (list_grades self page per_page sort_order (always r) log)
           = Inl (HTTPError (status_code r) (body_text r))"
    and "fst (create_grade self m (always r) log) = Inl (HTTPError (status_code r) (body_text r))"
    and "fst (get_grade self i (always r) log) = Inl (HTTPError (status_code r) (body_text r))"
    and "fst (update_grade self i m (always r) log) = Inl (HTTPError (status_code r) (body_text r))"
    and "fst (partial_update_grade self i m (always r) log)
           = Inl (HTTPError (status_code r) (body_text r))"
    and "fst (list_job_categories self page per_page sort_order (always r) log)
           = Inl (HTTPError (status_code r) (body_text r))"
    and "fst (create_job_category self m (always r) log)
           = Inl (HTTPError (status_code r) (body_text r))"
    and "fst (get_job_category self i (always r) log) = Inl (HTTPError (status_code r) (body_text r))"
    and "fst (create_dependent self i m (always r) log)
           = Inl (HTTPError (status_code r) (body_text r))"
    and "fst (get_dependent self i j (always r) log) = Inl (HTTPError (status_code r) (body_text r))"
    and "fst (update_dependent self i j m (always r) log)
           = Inl (HTTPError (status_code r) (body_text r))"
    and "fst (delete_dependent self i j (always r) log)
           = Inl (HTTPError (status_code r) (body_text r))"
    and "fst (list_relations self page per_page (always r) log)
           = Inl (HTTPError (status_code r) (body_text r))"
  using assms
  by (simp_all add: operation_defs delete_job_title_def SmartHRClient_request_def
      on_response_def requests_request_def
      raise_for_status_def always_def split: sum.splits)

text \<open>
  C1. \<open>delete_job_title\<close>, answered 204 to its \<open>DELETE\<close>, goes on to issue a \<open>GET\<close> of
  \<open>/v1/employment_types\<close>: two requests in one invocation (and its result is what
  that second response gives). The \<open>list_employment_types\<close> that is in force issues
  none.
\<close>

theorem delete_job_title_issues_two_requests:
  "delete_job_title example_client ''7'' (always no_content) [] =
     (Inl JSONDecodeError,
      [\<lparr>req_method = DELETE, req_url = ''https://app.smarthr.jp/api/v1/job_titles/7'',
         req_params = None, req_json = None, req_headers = headers example_client\<rparr>,
       \<lparr>req_method = GET, req_url = ''https://app.smarthr.jp/api/v1/employment_types'',
         req_params = None, req_json = None, req_headers = headers example_client\<rparr>])
   \<and> list_employment_types example_client None None (always no_content) [] = (Inr PNone, [])"
  by (simp add: delete_job_title_def list_employment_types_def requests_request_def on_response_def
      raise_for_status_def response_json_def always_def no_content_def example_client_def)

text \<open>
  C2. \<open>delete_grade\<close> returns normally on a 404 response, where the sibling
  \<open>delete_employment_type\<close> raises the \<open>HTTPError\<close> with the status and the body.
\<close>

theorem delete_grade_ignores_status:
  "delete_grade example_client ''3'' (always not_found) [] =
     (Inr PNone,
      [\<lparr>req_method = DELETE, req_url = ''https://app.smarthr.jp/api/v1/grades/3'',
         req_params = None, req_json = None, req_headers = headers example_client\<rparr>])
   \<and> delete_employment_type example_client ''3'' (always not_found) [] =
     (Inl (HTTPError 404 ''Not Found''),
      [\<lparr>req_method = DELETE, req_url = ''https://app.smarthr.jp/api/v1/employment_types/3'',
         req_params = None, req_json = None, req_headers = headers example_client\<rparr>])"
  by (simp add: delete_grade_def delete_employment_type_def send_then
      raise_for_status_def always_def not_found_def example_client_def)

text \<open>
  C3, as the code has it. Answered 204, \<open>delete_crew\<close>, \<open>delete_employment_type\<close>,
  \<open>delete_grade\<close> and \<open>delete_dependent\<close> return \<open>None\<close> after their one \<open>DELETE\<close>:
  nothing is raised and the body is not decoded (the response here has any body). The
  marker object for a 204 is what the internal \<open>_request\<close> returns; \<open>delete_dependent\<close>
  drops it.
\<close>

theorem delete_on_no_content:
  "status_code r = 204 \<Longrightarrow>
     (tr log \<lparr>req_method = DELETE, req_url = base_url self @ ''/v1/crews/'' @ crew_id,
              req_params = None, req_json = None, req_headers = headers self\<rparr> = Response r
      \<longrightarrow> delete_crew self crew_id tr log =
            (Inr PNone,
             log @ [\<lparr>req_method = DELETE, req_url = base_url self @ ''/v1/crews/'' @ crew_id,
                      req_params = None, req_json = None, req_headers = headers self\<rparr>]))
   \<and> (tr log \<lparr>req_method = DELETE,
              req_url = base_url self @ ''/v1/employment_types/'' @ employment_type_id,
              req_params = None, req_json = None, req_headers = headers self\<rparr> = Response r
      \<longrightarrow> delete_employment_type self employment_type_id tr log =
            (Inr PNone,
             log @ [\<lparr>req_method = DELETE,
                      req_url = base_url self @ ''/v1/employment_types/'' @ employment_type_id,
                      req_params = None, req_json = None, req_headers = headers self\<rparr>]))
   \<and> (tr log \<lparr>req_method = DELETE, req_url = base_url self @ ''/v1/grades/'' @ grade_id,
              req_params = None, req_json = None, req_headers = headers self\<rparr> = Response r
      \<longrightarrow> delete_grade self grade_id tr log =
            (Inr PNone,
             log @ [\<lparr>req_method = DELETE, req_url = base_url self @ ''/v1/grades/'' @ grade_id,
                      req_params = None, req_json = None, req_headers = headers self\<rparr>]))
   \<and> (tr log \<lparr>req_method = DELETE,
              req_url = base_url self @ ''/v1/crews/'' @ crew_id @ ''/dependents/''
                        @ dependent_id,
              req_params = None, req_json = None, req_headers = headers self\<rparr> = Response r
      \<longrightarrow> delete_dependent self crew_id dependent_id tr log =
            (Inr PNone,
             log @ [\<lparr>req_method = DELETE,
                      req_url = base_url self @ ''/v1/crews/'' @ crew_id @ ''/dependents/''
                                @ dependent_id,
                      req_params = None, req_json = None, req_headers = headers self\<rparr>]))
   \<and> (tr log \<lparr>req_method = meth, req_url = base_url self @ endpoint,
              req_params = params, req_json = js, req_headers = headers self\<rparr> = Response r
      \<longrightarrow> SmartHRClient_request self meth endpoint params js tr log =
            (Inr (PDict [(''status'', PInt 204), (''message'', PStr ''No Content'')]),
             log @ [\<lparr>req_method = meth, req_url = base_url self @ endpoint,
                      req_params = params, req_json = js, req_headers = headers self\<rparr>]))"
  by (simp add: delete_crew_def delete_employment_type_def delete_grade_def
      delete_dependent_def request_sent send_then raise_for_status_def)

theorem delete_on_no_content_witness:
  "status_code no_content = 204
   \<and> delete_crew example_client ''5'' (always no_content) [] =
       (Inr PNone,
        [\<lparr>req_method = DELETE, req_url = ''https://app.smarthr.jp/api/v1/crews/5'',
           req_params = None, req_json = None, req_headers = headers example_client\<rparr>])
   \<and> delete_dependent example_client ''5'' ''9'' (always no_content) [] =
       (Inr PNone,
        [\<lparr>req_method = DELETE,
           req_url = ''https://app.smarthr.jp/api/v1/crews/5/dependents/9'',
           req_params = None, req_json = None, req_headers = headers example_client\<rparr>])"
proof -
  have s: "status_code no_content = 204" by (simp add: no_content_def)
  from delete_on_no_content[OF s, where tr = "always no_content" and log = "[]"
      and self = example_client and crew_id = "''5''" and dependent_id = "''9''"]
  show ?thesis
    using s by (simp add: always_def example_client_def)
qed

text \<open>
  \<open>delete_crew\<close> on a 204: the result is \<open>None\<close>, not the marker object.
\<close>

theorem delete_crew_returns_None:
  "delete_crew example_client ''5'' (always no_content) [] =
     (Inr PNone,
      [\<lparr>req_method = DELETE, req_url = ''https://app.smarthr.jp/api/v1/crews/5'',
         req_params = None, req_json = None, req_headers = headers example_client\<rparr>])
   \<and> Inr PNone \<noteq>
       (Inr (PDict [(''status'', PInt 204), (''message'', PStr ''No Content'')]) :: error + pyval)"
  by (simp add: delete_crew_def send_then raise_for_status_def always_def no_content_def
      example_client_def)

section \<open>List operations\<close>

lemmas list_params_defs = list_departments_params_def list_employment_types_params_def
  list_job_titles_params_def list_grades_params_def list_job_categories_params_def
  list_relations_params_def search_crews_params_def default_arg_def

lemma list_crews_default_params:
  "list_crews_params [(''page'', p), (''per_page'', q), (''emp_code'', PNone),
           (''emp_type'', PNone), (''employment_type_id'', PNone), (''emp_status'', PNone),
           (''gender'', PNone), (''entered_at_from'', PNone), (''entered_at_to'', PNone),
           (''resigned_at_from'', PNone), (''resigned_at_to'', PNone),
           (''department_id'', PNone)] [] = [(''page'', p), (''per_page'', q)]"
  by (simp add: list_crews_params_def arg_def set_if_def)

text \<open>
  C7, as the code has it. Every list operation takes \<open>page\<close> and \<open>per_page\<close> and puts
  them into the query parameters (of the request it issues, where it issues one); left
  out, they are 1 and 10, except in \<open>list_relations\<close>, where \<open>per_page\<close> is 100.
\<close>

theorem list_defaults:
  "snd (list_crews self [] [] tr log) =
     log @ [\<lparr>req_method = GET, req_url = base_url self @ ''/v1/crews'',
              req_params = Some [(''page'', PInt 1), (''per_page'', PInt 10)],
              req_json = None, req_headers = headers self\<rparr>]
   \<and> snd (list_crews self [] [(''page'', PInt p), (''per_page'', PInt q)] tr log) =
     log @ [\<lparr>req_method = GET, req_url = base_url self @ ''/v1/crews'',
              req_params = Some [(''page'', PInt p), (''per_page'', PInt q)],
              req_json = None, req_headers = headers self\<rparr>]
   \<and> snd (list_dependents self crew_id [] [] tr log) =
     log @ [\<lparr>req_method = GET,
              req_url = base_url self @ ''/v1/crews/'' @ crew_id @ ''/dependents'',
              req_params = Some [(''page'', PInt 1), (''per_page'', PInt 10)],
              req_json = None, req_headers = headers self\<rparr>]
   \<and> snd (list_dependents self crew_id [] [(''page'', PInt p), (''per_page'', PInt q)] tr log) =
     log @ [\<lparr>req_method = GET,
              req_url = base_url self @ ''/v1/crews/'' @ crew_id @ ''/dependents'',
              req_params = Some [(''page'', PInt p), (''per_page'', PInt q)],
              req_json = None, req_headers = headers self\<rparr>]
   \<and> snd (list_departments self page per_page code sort_order tr log) =
     log @ [\<lparr>req_method = GET, req_url = base_url self @ ''/v1/departments'',
              req_params = Some (list_departments_params page per_page code sort_order),
              req_json = None, req_headers = headers self\<rparr>]
   \<and> map_of (list_departments_params None None code sort_order) ''page'' = Some (PInt 1)
   \<and> map_of (list_departments_params None None code sort_order) ''per_page'' = Some (PInt 10)
   \<and> map_of (list_departments_params (Some p) (Some q) code sort_order) ''page'' = Some (PInt p)
   \<and> map_of (list_departments_params (Some p) (Some q) code sort_order) ''per_page''
       = Some (PInt q)
   \<and> list_employment_types_params None None = [(''page'', PInt 1), (''per_page'', PInt 10)]
   \<and> list_employment_types_params (Some p) (Some q) = [(''page'', PInt p), (''per_page'', PInt q)]
   \<and> snd (list_job_titles self page per_page sort_order tr log) =
     log @ [\<lparr>req_method = GET, req_url = base_url self @ ''/v1/job_titles'',
              req_params = Some (list_job_titles_params page per_page sort_order),
              req_json = None, req_headers = headers self\<rparr>]
   \<and> map_of (list_job_titles_params None None sort_order) ''page'' = Some (PInt 1)
   \<and> map_of (list_job_titles_params None None sort_order) ''per_page'' = Some (PInt 10)
   \<and> map_of (list_job_titles_params (Some p) (Some q) sort_order) ''page'' = Some (PInt p)
   \<and> map_of (list_job_titles_params (Some p) (Some q) sort_order) ''per_page'' = Some (PInt q)
   \<and> snd (list_grades self page per_page sort_order tr log) =
     log @ [\<lparr>req_method = GET, req_url = base_url self @ ''/v1/grades'',
              req_params = Some (list_grades_params page per_page sort_order),
              req_json = None, req_headers = headers self\<rparr>]
   \<and> map_of (list_grades_params None None sort_order) ''page'' = Some (PInt 1)
   \<and> map_of (list_grades_params None None sort_order) ''per_page'' = Some (PInt 10)
   \<and> map_of (list_grades_params (Some p) (Some q) sort_order) ''page'' = Some (PInt p)
   \<and> map_of (list_grades_params (Some p) (Some q) sort_order) ''per_page'' = Some (PInt q)
   \<and> snd (list_job_categories self page per_page sort_order tr log) =
     log @ [\<lparr>req_method = GET, req_url = base_url self @ ''/v1/job_categories'',
              req_params = Some (list_job_categories_params page per_page sort_order),
              req_json = None, req_headers = headers self\<rparr>]
   \<and> map_of (list_job_categories_params None None sort_order) ''page'' = Some (PInt 1)
   \<and> map_of (list_job_categories_params None None sort_order) ''per_page'' = Some (PInt 10)
   \<and> map_of (list_job_categories_params (Some p) (Some q) sort_order) ''page'' = Some (PInt p)
   \<and> map_of (list_job_categories_params (Some p) (Some q) sort_order) ''per_page''
       = Some (PInt q)
   \<and> snd (list_relations self page per_page tr log) =
     log @ [\<lparr>req_method = GET, req_url = base_url self @ ''/v1/dependent_relations'',
              req_params = Some (list_relations_params page per_page),
              req_json = None, req_headers = headers self\<rparr>]
   \<and> list_relations_params None None = [(''page'', PInt 1), (''per_page'', PInt 100)]
   \<and> list_relations_params (Some p) (Some q) = [(''page'', PInt p), (''per_page'', PInt q)]"
proof -
  have crews: "snd (list_crews self [] [] tr log) =
     log @ [\<lparr>req_method = GET, req_url = base_url self @ ''/v1/crews'',
              req_params = Some [(''page'', PInt 1), (''per_page'', PInt 10)],
              req_json = None, req_headers = headers self\<rparr>]"
    "snd (list_crews self [] [(''page'', PInt p), (''per_page'', PInt q)] tr log) =
     log @ [\<lparr>req_method = GET, req_url = base_url self @ ''/v1/crews'',
              req_params = Some [(''page'', PInt p), (''per_page'', PInt q)],
              req_json = None, req_headers = headers self\<rparr>]"
    by (simp_all add: list_crews_def bind_defs send_then list_crews_default_params)
  have deps: "snd (list_dependents self crew_id [] [] tr log) =
     log @ [\<lparr>req_method = GET,
              req_url = base_url self @ ''/v1/crews/'' @ crew_id @ ''/dependents'',
              req_params = Some [(''page'', PInt 1), (''per_page'', PInt 10)],
              req_json = None, req_headers = headers self\<rparr>]"
    "snd (list_dependents self crew_id [] [(''page'', PInt p), (''per_page'', PInt q)] tr log) =
     log @ [\<lparr>req_method = GET,
              req_url = base_url self @ ''/v1/crews/'' @ crew_id @ ''/dependents'',
              req_params = Some [(''page'', PInt p), (''per_page'', PInt q)],
              req_json = None, req_headers = headers self\<rparr>]"
    by (simp_all add: list_dependents_def bind_defs request_sent list_dependents_params_def
        arg_def split: reply.splits sum.splits)
  have sent: "snd (list_departments self page per_page code sort_order tr log) =
     log @ [\<lparr>req_method = GET, req_url = base_url self @ ''/v1/departments'',
              req_params = Some (list_departments_params page per_page code sort_order),
              req_json = None, req_headers = headers self\<rparr>]"
    "snd (list_job_titles self page per_page sort_order tr log) =
     log @ [\<lparr>req_method = GET, req_url = base_url self @ ''/v1/job_titles'',
              req_params = Some (list_job_titles_params page per_page sort_order),
              req_json = None, req_headers = headers self\<rparr>]"
    "snd (list_grades self page per_page sort_order tr log) =
     log @ [\<lparr>req_method = GET, req_url = base_url self @ ''/v1/grades'',
              req_params = Some (list_grades_params page per_page sort_order),
              req_json = None, req_headers = headers self\<rparr>]"
    "snd (list_job_categories self page per_page sort_order tr log) =
     log @ [\<lparr>req_method = GET, req_url = base_url self @ ''/v1/job_categories'',
              req_params = Some (list_job_categories_params page per_page sort_order),
              req_json = None, req_headers = headers self\<rparr>]"
    "snd (list_relations self page per_page tr log) =
     log @ [\<lparr>req_method = GET, req_url = base_url self @ ''/v1/dependent_relations'',
              req_params = Some (list_relations_params page per_page),
              req_json = None, req_headers = headers self\<rparr>]"
    by (simp_all add: list_departments_def list_job_titles_def list_grades_def
        list_job_categories_def list_relations_def send_then request_sent)
  show ?thesis
    unfolding crews deps sent
    by (simp add: list_params_defs map_of_set_if)
qed

text \<open>
  \<open>list_relations\<close> called without arguments asks for 100 entries per page.
\<close>

theorem list_relations_default_per_page:
  "snd (list_relations example_client None None (always (ok_json (PList []))) []) =
     [\<lparr>req_method = GET, req_url = ''https://app.smarthr.jp/api/v1/dependent_relations'',
        req_params = Some [(''page'', PInt 1), (''per_page'', PInt 100)],
        req_json = None, req_headers = headers example_client\<rparr>]"
  by (simp add: list_relations_def list_relations_params_def default_arg_def send_then
      example_client_def)

text \<open>
  C9, as the code has it. For a 2xx response to the request of \<open>list_dependents\<close>: a
  204 gives the marker object of \<open>_request\<close>; otherwise the body is decoded, and when
  it is an object whose \<open>dependents\<close> entry is the empty list, whatever other entries
  it has, the result is exactly the explanatory message with the empty list; any other
  decoded body is returned unchanged.
\<close>

theorem list_dependents_result:
  "bind_call [''self'', ''crew_id''] list_dependents_signature pos kw = Inr (args, kwargs) \<Longrightarrow>
   tr log \<lparr>req_method = GET,
            req_url = base_url self @ ''/v1/crews/'' @ crew_id @ ''/dependents'',
            req_params = Some (list_dependents_params args kwargs), req_json = None,
            req_headers = headers self\<rparr> = Response r \<Longrightarrow>
   200 \<le> status_code r \<Longrightarrow> status_code r < 300 \<Longrightarrow>
   fst (list_dependents self crew_id pos kw tr log) =
     (if status_code r = 204
      then Inr (PDict [(''status'', PInt 204), (''message'', PStr ''No Content'')])
      else
        (case json_body r of
           None \<Rightarrow> Inl JSONDecodeError
         | Some body \<Rightarrow>
             Inr (if \<exists>d. body = PDict d \<and> map_of d ''dependents'' = Some (PList [])
                  then PDict [(''message'', PStr msg_no_dependents), (''dependents'', PList [])]
                  else body)))"
  by (auto simp add: list_dependents_def request_sent raise_for_status_def response_json_def
      empty_dependents_def split: option.splits pyval.splits)

theorem list_dependents_result_witness:
  "fst (list_dependents example_client ''5'' [] []
          (always (ok_json (PDict [(''dependents'', PList [])]))) []) =
     Inr (PDict [(''message'', PStr msg_no_dependents), (''dependents'', PList [])])"
proof -
  have b: "bind_call [''self'', ''crew_id''] list_dependents_signature [] [] =
             Inr ([(''page'', PInt 1), (''per_page'', PInt 10)], [])"
    by (simp add: bind_defs)
  from list_dependents_result[OF b, of "always (ok_json (PDict [(''dependents'', PList [])]))"
      "[]" example_client "''5''" "ok_json (PDict [(''dependents'', PList [])])"]
  show ?thesis
    by (simp add: always_def ok_json_def)
qed

text \<open>
  A body with an empty \<open>dependents\<close> list and a further entry is not returned
  unchanged: the further entry is gone.
\<close>

theorem list_dependents_drops_other_members:
  "fst (list_dependents example_client ''5'' [] []
          (always (ok_json (PDict [(''dependents'', PList []), (''total_count'', PInt 0)]))) []) =
     Inr (PDict [(''message'', PStr msg_no_dependents), (''dependents'', PList [])])
   \<and> PDict [(''message'', PStr msg_no_dependents), (''dependents'', PList [])] \<noteq>
       PDict [(''dependents'', PList []), (''total_count'', PInt 0)]"
  by (simp add: list_dependents_def bind_defs request_sent always_def ok_json_def
      raise_for_status_def response_json_def empty_dependents_def)

end
